theory Spec2Isabelle
  imports Complex_Main
begin

section \<open>Errors and the numeric comparison\<close>

text \<open>
  Every exception a constructor of \<^verbatim>\<open>wave.py\<close> or \<^verbatim>\<open>swe_wave.py\<close> can raise is a
  value.  An \<^verbatim>\<open>assert\<close> keeps its message.  \<open>Hang\<close> is not an exception: it
  is the outcome of a call whose \<^verbatim>\<open>while\<close> loop never leaves.
\<close>

datatype error =
    AssertionError string
  | KeyError string
  | TypeError string
  | AttributeError string
  | IndexError
  | SolverError string
  | Hang

definition bind_e :: "error + 'a \<Rightarrow> ('a \<Rightarrow> error + 'b) \<Rightarrow> error + 'b" where
  "bind_e m f = (case m of Inl e \<Rightarrow> Inl e | Inr x \<Rightarrow> f x)"

definition assert_e :: "bool \<Rightarrow> string \<Rightarrow> error + unit" where
  "assert_e c msg = (if c then Inr () else Inl (AssertionError msg))"

text \<open>
  \<^verbatim>\<open>numpy.allclose(a, b)\<close> with its default tolerances \<^verbatim>\<open>rtol=1e-05, atol=1e-08\<close>, on
  scalars and on arrays of equal length.  Arithmetic is over the reals throughout.
\<close>

definition allclose :: "real \<Rightarrow> real \<Rightarrow> bool" where
  "allclose a b \<longleftrightarrow> \<bar>a - b\<bar> \<le> 1 / 10 ^ 8 + (1 / 10 ^ 5) * \<bar>b\<bar>"

definition allclose_list :: "real list \<Rightarrow> real list \<Rightarrow> bool" where
  "allclose_list xs ys \<longleftrightarrow> length xs = length ys \<and> list_all2 allclose xs ys"

section \<open>Equation of state and State\<close>

text \<open>
  The equation of state is a dictionary of named closures; a key may be absent.  The keys
  are those \<^verbatim>\<open>wave.py\<close> reads: \<^verbatim>\<open>'h_from_rho_p'\<close>, \<^verbatim>\<open>'t_from_rho_eps'\<close>,
  \<^verbatim>\<open>'t_ignition'\<close>, \<^verbatim>\<open>'eos_inert'\<close> and the marker \<^verbatim>\<open>'q_available'\<close>.
\<close>

datatype eos = EOS
  (h_from_rho_p : "(real \<Rightarrow> real \<Rightarrow> real) option")
  (t_from_rho_eps : "(real \<Rightarrow> real \<Rightarrow> real) option")
  (t_ignition : "real option")
  (eos_inert : "eos option")
  (q_available : "real option")

definition lookup :: "'a option \<Rightarrow> string \<Rightarrow> error + 'a" where
  "lookup entry key = (case entry of None \<Rightarrow> Inl (KeyError key) | Some x \<Rightarrow> Inr x)"

text \<open>A label is absent, a string, or (in \<^verbatim>\<open>deflagration_root\<close>) a number.\<close>

datatype label = NoLabel | StrLabel string | NumLabel real

text \<open>
  Modelled from the spec: the class \<^verbatim>\<open>State\<close> (\<^verbatim>\<open>state.py\<close>) is not among the sources.
  A State holds the primary variables \<open>\<rho>\<close>, \<open>v\<close>, \<open>v\<^sub>t\<close>, \<open>\<epsilon>\<close>, a reference to an equation
  of state and an optional label; \<^verbatim>\<open>wave.py\<close> also reads and assigns its attribute
  \<^verbatim>\<open>q\<close>, the reactive progress variable.
\<close>

record state =
  s_rho :: real
  s_v :: real
  s_vt :: real
  s_eps :: real
  s_eos :: eos
  s_label :: label
  s_q :: "real option"

text \<open>
  Modelled from the spec: the derived quantities of a State (pressure, specific enthalpy,
  Lorentz factor, sound speed, characteristic speed) and \<^verbatim>\<open>vt_from_known\<close> are computed
  from the primary variables and the equation of state.  Their formulas are in
  \<^verbatim>\<open>state.py\<close>, so they are parameters here, as are the value the constructor gives
  \<^verbatim>\<open>q\<close> and the two numeric primitives of scipy, \<^verbatim>\<open>brentq\<close> and \<^verbatim>\<open>odeint\<close>
  (\<^verbatim>\<open>odeint\<close> returns the state vector at the end of the path).
\<close>

record physics =
  p_fn :: "real \<Rightarrow> real \<Rightarrow> real \<Rightarrow> real \<Rightarrow> eos \<Rightarrow> real"
  h_fn :: "real \<Rightarrow> real \<Rightarrow> real \<Rightarrow> real \<Rightarrow> eos \<Rightarrow> real"
  cs_fn :: "real \<Rightarrow> real \<Rightarrow> real \<Rightarrow> real \<Rightarrow> eos \<Rightarrow> real"
  W_lorentz_fn :: "real \<Rightarrow> real \<Rightarrow> real \<Rightarrow> real \<Rightarrow> eos \<Rightarrow> real"
  wavespeed_fn :: "real \<Rightarrow> real \<Rightarrow> real \<Rightarrow> real \<Rightarrow> eos \<Rightarrow> int \<Rightarrow> real"
  vt_from_known_fn :: "real \<Rightarrow> real \<Rightarrow> real \<Rightarrow> real \<Rightarrow> eos \<Rightarrow> real \<Rightarrow> real \<Rightarrow> real \<Rightarrow> real"
  q_init :: "eos \<Rightarrow> real option"
  brentq :: "(real \<Rightarrow> error + real) \<Rightarrow> real \<Rightarrow> real \<Rightarrow> error + real"
  odeint :: "(real \<times> real \<times> real \<Rightarrow> real \<Rightarrow> real \<times> real \<times> real) \<Rightarrow>
             real \<times> real \<times> real \<Rightarrow> real \<Rightarrow> real \<Rightarrow> real \<times> real \<times> real"

definition State :: "physics \<Rightarrow> real \<Rightarrow> real \<Rightarrow> real \<Rightarrow> real \<Rightarrow> eos \<Rightarrow> label \<Rightarrow> state" where
  "State ph rho v vt eps e lab =
     \<lparr>s_rho = rho, s_v = v, s_vt = vt, s_eps = eps, s_eos = e, s_label = lab,
      s_q = q_init ph e\<rparr>"

definition s_p :: "physics \<Rightarrow> state \<Rightarrow> real" where
  "s_p ph s = p_fn ph (s_rho s) (s_v s) (s_vt s) (s_eps s) (s_eos s)"

definition s_h :: "physics \<Rightarrow> state \<Rightarrow> real" where
  "s_h ph s = h_fn ph (s_rho s) (s_v s) (s_vt s) (s_eps s) (s_eos s)"

definition s_cs :: "physics \<Rightarrow> state \<Rightarrow> real" where
  "s_cs ph s = cs_fn ph (s_rho s) (s_v s) (s_vt s) (s_eps s) (s_eos s)"

definition s_W_lorentz :: "physics \<Rightarrow> state \<Rightarrow> real" where
  "s_W_lorentz ph s = W_lorentz_fn ph (s_rho s) (s_v s) (s_vt s) (s_eps s) (s_eos s)"

definition s_wavespeed :: "physics \<Rightarrow> state \<Rightarrow> int \<Rightarrow> real" where
  "s_wavespeed ph s wavenumber =
     wavespeed_fn ph (s_rho s) (s_v s) (s_vt s) (s_eps s) (s_eos s) wavenumber"

definition vt_from_known :: "physics \<Rightarrow> state \<Rightarrow> real \<Rightarrow> real \<Rightarrow> real \<Rightarrow> real" where
  "vt_from_known ph s rho v eps =
     vt_from_known_fn ph (s_rho s) (s_v s) (s_vt s) (s_eps s) (s_eos s) rho v eps"

section \<open>Wave sections of the relativistic family (\<^verbatim>\<open>wave.py\<close>)\<close>

text \<open>
  The right-hand side of the rarefaction equation, \<^verbatim>\<open>rarefaction_dwdp\<close>.  The vector
  \<open>w\<close> is \<open>(\<rho>, v, \<epsilon>)\<close>.
\<close>

definition rarefaction_dwdp ::
  "physics \<Rightarrow> state \<Rightarrow> int \<Rightarrow> real \<times> real \<times> real \<Rightarrow> real \<Rightarrow> real \<times> real \<times> real" where
  "rarefaction_dwdp ph q_known wavenumber w p =
     (case w of (rho, v, eps) \<Rightarrow>
        let lr_sign = real_of_int (wavenumber - 1);
            vt = vt_from_known ph q_known rho v eps;
            local_state = State ph rho v vt eps (s_eos q_known) NoLabel;
            cs = s_cs ph local_state;
            h = s_h ph local_state;
            W_lorentz = s_W_lorentz ph local_state;
            xi = s_wavespeed ph local_state wavenumber;
            g = vt ^ 2 * (xi ^ 2 - 1) / (1 - xi * v) ^ 2
        in (1 / (h * cs ^ 2),
            lr_sign / (rho * h * W_lorentz ^ 2 * cs) / sqrt (1 + g),
            s_p ph local_state / (rho ^ 2 * h * cs ^ 2)))"

text \<open>The residual of the shock adiabat, the local function \<^verbatim>\<open>shock_root_rho\<close>.\<close>

definition shock_root_rho ::
  "physics \<Rightarrow> (real \<Rightarrow> real \<Rightarrow> real) \<Rightarrow> state \<Rightarrow> real \<Rightarrow> real \<Rightarrow> real" where
  "shock_root_rho ph hf q_start p_end rho =
     (let h = hf rho p_end
      in (h ^ 2 - (s_h ph q_start) ^ 2) -
         (h / rho + s_h ph q_start / s_rho q_start) * (p_end - s_p ph q_start))"

text \<open>
  The two \<^verbatim>\<open>while\<close> loops of \<^verbatim>\<open>mass_flux_squared\<close>: as long as the residuals at the
  two ends of the bracket have a positive product, \<^verbatim>\<open>min_rho\<close> is divided by \<open>dmin\<close> and
  \<^verbatim>\<open>max_rho\<close> multiplied by \<open>dmax\<close> (\<open>1.1\<close> and \<open>10\<close> in the shock branch, \<open>10\<close> and
  \<open>1.1\<close> in the deflagration branch).  The loop has no counter; \<open>None\<close> is the loop
  that never leaves.
\<close>

partial_function (option) widen_bracket ::
  "(real \<Rightarrow> real) \<Rightarrow> real \<Rightarrow> real \<Rightarrow> real \<Rightarrow> real \<Rightarrow> real \<Rightarrow> real \<Rightarrow> (real \<times> real) option" where
  "widen_bracket f dmin dmax min_rho max_rho shock_root_min shock_root_max =
     (if shock_root_min * shock_root_max > 0
      then widen_bracket f dmin dmax (min_rho / dmin) (max_rho * dmax)
             (f (min_rho / dmin)) (f (max_rho * dmax))
      else Some (min_rho, max_rho))"

definition initial_bracket :: "physics \<Rightarrow> state \<Rightarrow> real \<Rightarrow> real \<times> real" where
  "initial_bracket ph q_start p_end =
     (if p_end \<ge> s_p ph q_start
      then (s_rho q_start, sqrt (p_end / s_p ph q_start) * s_rho q_start)
      else (sqrt (p_end / s_p ph q_start) * s_rho q_start, s_rho q_start))"

definition mass_flux_squared ::
  "physics \<Rightarrow> state \<Rightarrow> real \<Rightarrow> eos option \<Rightarrow> error + (real \<times> real \<times> real \<times> real)" where
  "mass_flux_squared ph q_start p_end unknown_eos_arg =
     (let unknown_eos = (case unknown_eos_arg of None \<Rightarrow> s_eos q_start | Some e \<Rightarrow> e)
      in bind_e (lookup (h_from_rho_p unknown_eos) ''h_from_rho_p'') (\<lambda>hf.
         let f = shock_root_rho ph hf q_start p_end;
             (min_rho0, max_rho0) = initial_bracket ph q_start p_end;
             bracket =
               (if p_end \<ge> s_p ph q_start
                then widen_bracket f (11 / 10) 10 min_rho0 max_rho0 (f min_rho0) (f max_rho0)
                else widen_bracket f 10 (11 / 10) min_rho0 max_rho0 (f min_rho0) (f max_rho0))
         in case bracket of
              None \<Rightarrow> Inl Hang
            | Some (min_rho, max_rho) \<Rightarrow>
                bind_e (brentq ph (\<lambda>r. Inr (f r)) min_rho max_rho) (\<lambda>rho.
                  let h = hf rho p_end;
                      eps = h - 1 - p_end / rho;
                      dp = p_end - s_p ph q_start;
                      dh2 = h ^ 2 - (s_h ph q_start) ^ 2;
                      j2 = - dp / (dh2 / dp - 2 * s_h ph q_start / s_rho q_start)
                  in Inr (j2, rho, eps, dp))))"

text \<open>
  The closed form of the jump conditions.  The source writes this block out six times
  (in \<^verbatim>\<open>deflagration_root\<close>, in \<^verbatim>\<open>Shock\<close>, twice in \<^verbatim>\<open>Deflagration\<close> and twice in
  \<^verbatim>\<open>Detonation\<close>); the text is the same each time, up to the names of the variables.
\<close>

definition front_speed :: "physics \<Rightarrow> state \<Rightarrow> real \<Rightarrow> real \<Rightarrow> real" where
  "front_speed ph q lr_sign j =
     ((s_rho q) ^ 2 * (s_W_lorentz ph q) ^ 2 * s_v q +
      lr_sign * j ^ 2 *
        sqrt (1 + (s_rho q) ^ 2 * (s_W_lorentz ph q) ^ 2 * (1 - (s_v q) ^ 2) / j ^ 2)) /
     ((s_rho q) ^ 2 * (s_W_lorentz ph q) ^ 2 + j ^ 2)"

definition post_front_v :: "physics \<Rightarrow> state \<Rightarrow> real \<Rightarrow> real \<Rightarrow> real \<Rightarrow> real \<Rightarrow> real" where
  "post_front_v ph q lr_sign dp j v_front =
     (let W_lorentz_front = 1 / sqrt (1 - v_front ^ 2)
      in (s_h ph q * s_W_lorentz ph q * s_v q + lr_sign * dp * W_lorentz_front / j) /
         (s_h ph q * s_W_lorentz ph q +
          dp * (1 / s_rho q / s_W_lorentz ph q + lr_sign * s_v q * W_lorentz_front / j)))"

definition solve_jump ::
  "physics \<Rightarrow> state \<Rightarrow> real \<Rightarrow> eos \<Rightarrow> int \<Rightarrow> label \<Rightarrow> error + (real \<times> state)" where
  "solve_jump ph q_start p_end e wavenumber lab =
     bind_e (mass_flux_squared ph q_start p_end (Some e)) (\<lambda>(j2, rho, eps, dp).
       let lr_sign = real_of_int (wavenumber - 1);
           j = sqrt j2;
           v_front = front_speed ph q_start lr_sign j;
           v = post_front_v ph q_start lr_sign dp j v_front;
           vt = vt_from_known ph q_start rho v eps
       in Inr (v_front, State ph rho v vt eps e lab))"

definition deflagration_root ::
  "physics \<Rightarrow> state \<Rightarrow> eos \<Rightarrow> int \<Rightarrow> label \<Rightarrow> real \<Rightarrow> error + real" where
  "deflagration_root ph q_precursor unknown_eos wavenumber lab p_0_star =
     bind_e (solve_jump ph q_precursor p_0_star unknown_eos wavenumber lab)
       (\<lambda>(v_deflagration, q_unknown).
          Inr (s_wavespeed ph q_unknown wavenumber - v_deflagration))"

text \<open>
  A wave section.  The LaTeX \<^verbatim>\<open>name\<close> of a section belongs to the presentation layer
  and is left out; the labels \<^verbatim>\<open>\star_L\<close> and \<^verbatim>\<open>\star_R\<close> are written without the
  backslash.
\<close>

record wave_section =
  sec_trivial :: bool
  sec_type :: string
  sec_wavenumber :: int
  sec_q_start :: state
  sec_q_end :: state
  sec_wavespeed :: "real list"

text \<open>
  The third argument of \<^verbatim>\<open>Wave\<close> is a number for the wavenumbers 0 and 2 and a State
  for the wavenumber 1: Python does not tell them apart before they are used.
\<close>

datatype pyval = Num real | St state

definition star_label :: "int \<Rightarrow> label" where
  "star_label wavenumber = (if wavenumber = 0 then StrLabel ''star_L'' else StrLabel ''star_R'')"

definition Contact :: "physics \<Rightarrow> state \<Rightarrow> pyval \<Rightarrow> int \<Rightarrow> error + wave_section" where
  "Contact ph q_start q_end_arg wavenumber =
     bind_e (assert_e (wavenumber \<in> set [1]) ''wavenumber for a Contact must be 1'') (\<lambda>_.
     case q_end_arg of
       Num x \<Rightarrow> Inl (AttributeError ''v'')
     | St q_end \<Rightarrow>
         bind_e (assert_e (allclose (s_v q_start) (s_v q_end))
                   ''Velocities of states must match for a contact'') (\<lambda>_.
         bind_e (assert_e (allclose (s_p ph q_start) (s_p ph q_end))
                   ''Pressures of states must match for a contact'') (\<lambda>_.
         bind_e (assert_e (allclose (s_wavespeed ph q_start wavenumber)
                                    (s_wavespeed ph q_end wavenumber))
                   ''Wavespeeds of states must match for a contact'') (\<lambda>_.
         Inr \<lparr>sec_trivial = False, sec_type = ''Contact'', sec_wavenumber = wavenumber,
              sec_q_start = q_start, sec_q_end = q_end,
              sec_wavespeed = [s_v q_start]\<rparr>))))"

definition Rarefaction :: "physics \<Rightarrow> state \<Rightarrow> real \<Rightarrow> int \<Rightarrow> error + wave_section" where
  "Rarefaction ph q_start p_end wavenumber =
     bind_e (assert_e (wavenumber \<in> set [0, 2])
               ''wavenumber for a Rarefaction must be in 0, 2'') (\<lambda>_.
     bind_e (assert_e (s_p ph q_start \<ge> p_end) ''For a rarefaction, p_start >= p_end'') (\<lambda>_.
     let lab = star_label wavenumber;
         v_known = s_wavespeed ph q_start wavenumber;
         (trivial, q_end, v_unknown) =
           (if allclose (s_p ph q_start) p_end
            then (True,
                  State ph (s_rho q_start) (s_v q_start) (s_vt q_start) (s_eps q_start)
                    (s_eos q_start) lab,
                  v_known)
            else
              (case odeint ph (rarefaction_dwdp ph q_start wavenumber)
                      (s_rho q_start, s_v q_start, s_eps q_start) (s_p ph q_start) p_end of
                 (w0, w1, w2) \<Rightarrow>
                   let q_e = State ph w0 w1 (vt_from_known ph q_start w0 w1 w2) w2
                               (s_eos q_start) lab
                   in (False, q_e, s_wavespeed ph q_e wavenumber)))
     in Inr \<lparr>sec_trivial = trivial, sec_type = ''Rarefaction'', sec_wavenumber = wavenumber,
             sec_q_start = q_start, sec_q_end = q_end,
             sec_wavespeed =
               (if wavenumber = 0 then [v_known, v_unknown] else [v_unknown, v_known])\<rparr>))"

definition Shock :: "physics \<Rightarrow> state \<Rightarrow> real \<Rightarrow> int \<Rightarrow> error + wave_section" where
  "Shock ph q_start p_end wavenumber =
     bind_e (assert_e (wavenumber \<in> set [0, 2]) ''wavenumber for a Shock must be in 0, 2'') (\<lambda>_.
     let lab = star_label wavenumber
     in bind_e
          (if allclose (s_p ph q_start) p_end
           then Inr (True, s_wavespeed ph q_start wavenumber,
                     State ph (s_rho q_start) (s_v q_start) (s_vt q_start) (s_eps q_start)
                       (s_eos q_start) lab)
           else bind_e (solve_jump ph q_start p_end (s_eos q_start) wavenumber lab)
                  (\<lambda>(v_shock, q_e). Inr (False, v_shock, q_e)))
          (\<lambda>(trivial, v_shock, q_end).
             Inr \<lparr>sec_trivial = trivial, sec_type = ''Shock'', sec_wavenumber = wavenumber,
                  sec_q_start = q_start, sec_q_end = q_end, sec_wavespeed = [v_shock]\<rparr>))"

definition precursor_root :: "physics \<Rightarrow> state \<Rightarrow> real \<Rightarrow> int \<Rightarrow> real \<Rightarrow> error + real" where
  "precursor_root ph q_known t_i wavenumber p_0_star =
     bind_e (Shock ph q_known p_0_star wavenumber) (\<lambda>shock.
     let q_precursor = sec_q_end shock
     in bind_e (lookup (t_from_rho_eps (s_eos q_precursor)) ''t_from_rho_eps'') (\<lambda>tf.
        Inr (tf (s_rho q_precursor) (s_eps q_precursor) - t_i)))"

text \<open>
  \<^verbatim>\<open>Deflagration\<close> and \<^verbatim>\<open>Detonation\<close>.  When the first solve fails the stability check,
  the Chapman-Jouguet pressure is sought with \<^verbatim>\<open>brentq\<close> on \<^verbatim>\<open>deflagration_root\<close>,
  whose last argument, the label, receives \<^verbatim>\<open>t_i\<close>.  \<^verbatim>\<open>Deflagration\<close> then calls the
  module function \<^verbatim>\<open>mass_flux_squared\<close>; \<^verbatim>\<open>Detonation\<close> calls
  \<^verbatim>\<open>self.mass_flux_squared\<close>, an attribute no class of the module defines.
\<close>

definition Deflagration :: "physics \<Rightarrow> state \<Rightarrow> real \<Rightarrow> int \<Rightarrow> error + wave_section" where
  "Deflagration ph q_start p_end wavenumber =
     bind_e (lookup (eos_inert (s_eos q_start)) ''eos_inert'') (\<lambda>eos_end.
     bind_e (lookup (t_ignition (s_eos q_start)) ''t_ignition'') (\<lambda>t_i.
     bind_e (assert_e (wavenumber \<in> set [0, 2])
               ''wavenumber for a Deflagration must be in 0, 2'') (\<lambda>_.
     bind_e (assert_e (s_p ph q_start \<ge> p_end) ''For a deflagration, p_start >= p_end'') (\<lambda>_.
     bind_e (lookup (t_from_rho_eps (s_eos q_start)) ''t_from_rho_eps'') (\<lambda>tf.
     let t_start = tf (s_rho q_start) (s_eps q_start)
     in bind_e (assert_e (t_start \<ge> t_i)
                 (''For a deflagration, temperature of start '' @
                  ''state must be at least the ignition temperature'')) (\<lambda>_.
     let lr_sign = real_of_int (wavenumber - 1);
         lab = star_label wavenumber;
         v_known = s_wavespeed ph q_start wavenumber
     in bind_e
          (if allclose (s_p ph q_start) p_end
           then Inr (True, v_known,
                     State ph (s_rho q_start) (s_v q_start) (s_vt q_start) (s_eps q_start)
                       eos_end lab)
           else
             bind_e (solve_jump ph q_start p_end eos_end wavenumber lab)
               (\<lambda>(v_deflagration, q_unknown).
                  if lr_sign * (s_wavespeed ph q_unknown wavenumber - v_deflagration) < 0
                  then
                    bind_e (brentq ph
                              (deflagration_root ph q_start eos_end wavenumber (NumLabel t_i))
                              ((1 + 1 / 10 ^ 9) * p_end) ((1 - 1 / 10 ^ 9) * s_p ph q_start))
                      (\<lambda>p_cjdf.
                    bind_e (solve_jump ph q_start p_cjdf eos_end wavenumber lab)
                      (\<lambda>(v_cj, q_cj). Inr (False, v_cj, q_cj)))
                  else Inr (False, v_deflagration, q_unknown)))
          (\<lambda>(trivial, v_deflagration, q_end).
             Inr \<lparr>sec_trivial = trivial, sec_type = ''Deflagration'',
                  sec_wavenumber = wavenumber, sec_q_start = q_start, sec_q_end = q_end,
                  sec_wavespeed = [v_deflagration, v_deflagration]\<rparr>)))))))"

definition Detonation :: "physics \<Rightarrow> state \<Rightarrow> real \<Rightarrow> int \<Rightarrow> error + wave_section" where
  "Detonation ph q_start p_end wavenumber =
     bind_e (lookup (eos_inert (s_eos q_start)) ''eos_inert'') (\<lambda>eos_end.
     bind_e (lookup (t_ignition (s_eos q_start)) ''t_ignition'') (\<lambda>t_i.
     bind_e (assert_e (wavenumber \<in> set [0, 2])
               ''wavenumber for a Detonation must be in 0, 2'') (\<lambda>_.
     bind_e (assert_e (s_p ph q_start \<le> p_end) ''For a detonation, p_start <= p_end'') (\<lambda>_.
     bind_e (lookup (t_from_rho_eps (s_eos q_start)) ''t_from_rho_eps'') (\<lambda>tf.
     let t_start = tf (s_rho q_start) (s_eps q_start)
     in bind_e (assert_e (t_start \<ge> t_i)
                 (''For a detonation, temperature of start '' @
                  ''state must be at least the ignition temperature'')) (\<lambda>_.
     let lr_sign = real_of_int (wavenumber - 1);
         lab = star_label wavenumber;
         v_known = s_wavespeed ph q_start wavenumber
     in bind_e
          (if allclose (s_p ph q_start) p_end
           then Inr (True, v_known,
                     State ph (s_rho q_start) (s_v q_start) (s_vt q_start) (s_eps q_start)
                       eos_end lab)
           else
             bind_e (solve_jump ph q_start p_end eos_end wavenumber lab)
               (\<lambda>(v_detonation, q_unknown).
                  if lr_sign * (s_wavespeed ph q_unknown wavenumber - v_detonation) < 0
                  then
                    bind_e (brentq ph
                              (deflagration_root ph q_start eos_end wavenumber (NumLabel t_i))
                              ((1 + 1 / 10 ^ 9) * p_end) ((1 - 1 / 10 ^ 9) * s_p ph q_start))
                      (\<lambda>p_cjdt. Inl (AttributeError ''mass_flux_squared''))
                  else Inr (False, v_detonation, q_unknown)))
          (\<lambda>(trivial, v_detonation, q_end).
             Inr \<lparr>sec_trivial = trivial, sec_type = ''Detonation'',
                  sec_wavenumber = wavenumber, sec_q_start = q_start, sec_q_end = q_end,
                  sec_wavespeed = [v_detonation, v_detonation]\<rparr>)))))))"

section \<open>Composition of a wave (\<^verbatim>\<open>wave.py\<close>)\<close>

text \<open>
  \<^verbatim>\<open>q_known.p < unknown_value\<close>: a number cannot be compared with a State.
\<close>

definition p_less :: "physics \<Rightarrow> state \<Rightarrow> pyval \<Rightarrow> error + (bool \<times> real)" where
  "p_less ph q_known unknown_value =
     (case unknown_value of
        Num u \<Rightarrow> Inr (s_p ph q_known < u, u)
      | St _ \<Rightarrow> Inl (TypeError ''<''))"

definition build_inert_wave_section ::
  "physics \<Rightarrow> state \<Rightarrow> pyval \<Rightarrow> int \<Rightarrow> error + wave_section list" where
  "build_inert_wave_section ph q_known unknown_value wavenumber =
     (if wavenumber = 1
      then bind_e (Contact ph q_known unknown_value wavenumber) (\<lambda>c. Inr [c])
      else bind_e (p_less ph q_known unknown_value) (\<lambda>(less, u).
           if less
           then bind_e (Shock ph q_known u wavenumber) (\<lambda>s. Inr [s])
           else bind_e (Rarefaction ph q_known u wavenumber) (\<lambda>r. Inr [r])))"

text \<open>
  \<^verbatim>\<open>build_reactive_wave_section\<close> returns a bare \<^verbatim>\<open>Contact\<close> for the wavenumber 1 and a
  list of sections otherwise.

  In the precursor branch \<^verbatim>\<open>q_next\<close> is the very object \<^verbatim>\<open>precursor_shock.q_end\<close>, so
  the assignment \<^verbatim>\<open>q_next.q = q_known.q\<close> writes into the end state of the section that
  is already in the list: the section of the list is the section with that field
  overwritten.  Every other hand-over goes through \<^verbatim>\<open>deepcopy\<close>.
\<close>

datatype sections = Bare wave_section | Listed "wave_section list"

definition trailing_rarefaction ::
  "physics \<Rightarrow> wave_section list \<Rightarrow> state \<Rightarrow> real \<Rightarrow> int \<Rightarrow> error + wave_section list" where
  "trailing_rarefaction ph wavesections q_next unknown_value wavenumber =
     (if s_p ph q_next > unknown_value
      then bind_e (Rarefaction ph q_next unknown_value wavenumber)
             (\<lambda>rarefaction. Inr (wavesections @ [rarefaction]))
      else Inr wavesections)"

definition precursor_bracket ::
  "physics \<Rightarrow> state \<Rightarrow> real \<Rightarrow> int \<Rightarrow> real \<Rightarrow> error + (real \<times> real)" where
  "precursor_bracket ph q_known t_i wavenumber unknown_value =
     (let p_min = unknown_value;
          p_max = s_p ph q_known
      in bind_e (precursor_root ph q_known t_i wavenumber p_min) (\<lambda>t_min.
         bind_e (precursor_root ph q_known t_i wavenumber p_max) (\<lambda>t_max.
         bind_e (assert_e (t_min < 0) []) (\<lambda>_.
         if t_max \<le> 0
         then bind_e (precursor_root ph q_known t_i wavenumber (p_max * 2))
                (\<lambda>t_max'. Inr (p_min, p_max * 2))
         else Inr (p_min, p_max)))))"

definition build_reactive_wave_section ::
  "physics \<Rightarrow> state \<Rightarrow> pyval \<Rightarrow> int \<Rightarrow> error + sections" where
  "build_reactive_wave_section ph q_known unknown_value wavenumber =
     bind_e (lookup (t_ignition (s_eos q_known)) ''t_ignition'') (\<lambda>t_i.
     if wavenumber = 1
     then bind_e (Contact ph q_known unknown_value wavenumber) (\<lambda>c. Inr (Bare c))
     else
       bind_e (p_less ph q_known unknown_value) (\<lambda>(less, u).
       if less
       then
         bind_e (Detonation ph q_known u wavenumber) (\<lambda>detonation.
         bind_e (trailing_rarefaction ph [detonation] (sec_q_end detonation) u wavenumber)
           (\<lambda>ws. Inr (Listed ws)))
       else
         bind_e (lookup (t_from_rho_eps (s_eos q_known)) ''t_from_rho_eps'') (\<lambda>tf.
         let t_known = tf (s_rho q_known) (s_eps q_known)
         in bind_e
              (if t_known < t_i
               then
                 bind_e (precursor_bracket ph q_known t_i wavenumber u) (\<lambda>(p_min, p_max).
                 bind_e (brentq ph (precursor_root ph q_known t_i wavenumber) p_min p_max)
                   (\<lambda>p_0_star.
                 bind_e (Shock ph q_known p_0_star wavenumber) (\<lambda>precursor_shock.
                 let q_next = (sec_q_end precursor_shock)\<lparr>s_q := s_q q_known\<rparr>
                 in Inr ([precursor_shock\<lparr>sec_q_end := q_next\<rparr>], q_next))))
               else Inr ([], q_known))
              (\<lambda>(wavesections, q_next).
                 bind_e (Deflagration ph q_next u wavenumber) (\<lambda>deflagration.
                 bind_e (trailing_rarefaction ph (wavesections @ [deflagration])
                           (sec_q_end deflagration) u wavenumber)
                   (\<lambda>ws. Inr (Listed ws)))))))"

text \<open>
  \<^verbatim>\<open>Wave.__init__\<close>.  The loop \<^verbatim>\<open>for sections in waves\<close> needs an iterable: a bare
  \<^verbatim>\<open>Contact\<close> is not one.  The speeds of all sections are folded into \<^verbatim>\<open>minspeed\<close> and
  \<^verbatim>\<open>maxspeed\<close>, which start at \<open>10\<close> and \<open>-10\<close>.  The class has no attribute
  \<^verbatim>\<open>trivial\<close>.
\<close>

record wave =
  w_wavenumber :: int
  w_wave_sections :: "wave_section list"
  w_q_l :: state
  w_q_r :: state
  w_wavespeed :: "real list"

definition iterate_sections :: "sections \<Rightarrow> error + wave_section list" where
  "iterate_sections waves =
     (case waves of
        Bare c \<Rightarrow> Inl (TypeError ''Contact object is not iterable'')
      | Listed ws \<Rightarrow> Inr ws)"

definition minspeed_of :: "real list \<Rightarrow> real" where
  "minspeed_of speeds = foldl (\<lambda>minspeed speed. min speed minspeed) 10 speeds"

definition maxspeed_of :: "real list \<Rightarrow> real" where
  "maxspeed_of speeds = foldl (\<lambda>maxspeed speed. max speed maxspeed) (- 10) speeds"

definition speed_bracket :: "real list \<Rightarrow> real list" where
  "speed_bracket speeds =
     (let minspeed = minspeed_of speeds;
          maxspeed = maxspeed_of speeds
      in [minspeed] @ (if \<not> allclose minspeed maxspeed then [maxspeed] else []))"

definition edge_states :: "int \<Rightarrow> state \<Rightarrow> state list \<Rightarrow> state \<times> state" where
  "edge_states wavenumber q_known ends =
     (if wavenumber = 0
      then (q_known, if ends \<noteq> [] then last ends else q_known)
      else if wavenumber = 1
      then (q_known, q_known)
      else (if ends \<noteq> [] then last ends else q_known, q_known))"

text \<open>The second half of \<^verbatim>\<open>Wave.__init__\<close>: the edge states and the speed bracket.\<close>

definition aggregate :: "int \<Rightarrow> state \<Rightarrow> wave_section list \<Rightarrow> wave" where
  "aggregate wavenumber q_known wave_sections =
     (let (q_l, q_r) = edge_states wavenumber q_known (map sec_q_end wave_sections)
      in \<lparr>w_wavenumber = wavenumber, w_wave_sections = wave_sections,
           w_q_l = q_l, w_q_r = q_r,
           w_wavespeed = speed_bracket (concat (map sec_wavespeed wave_sections))\<rparr>)"

definition Wave :: "physics \<Rightarrow> state \<Rightarrow> pyval \<Rightarrow> int \<Rightarrow> error + wave" where
  "Wave ph q_known unknown_value wavenumber =
     bind_e
       (if q_available (s_eos q_known) = None
        then build_inert_wave_section ph q_known unknown_value wavenumber
        else bind_e (build_reactive_wave_section ph q_known unknown_value wavenumber)
               iterate_sections)
       (\<lambda>wave_sections. Inr (aggregate wavenumber q_known wave_sections))"

section \<open>The shallow-water family (\<^verbatim>\<open>swe/swe_wave.py\<close>)\<close>

text \<open>
  Modelled from the spec: the class \<^verbatim>\<open>SWEState\<close> (\<^verbatim>\<open>swe_state.py\<close>) is not among the
  sources.  Its primary variables are the depth proxy \<open>\<phi>\<close> and the velocity \<open>v\<close>, which
  \<^verbatim>\<open>prim()\<close> returns; it carries an optional label.  Its characteristic speed and the
  array \<^verbatim>\<open>state()\<close> are computed from the primary variables and are parameters, as is
  scipy's \<^verbatim>\<open>odeint\<close>, which returns one value for each point of the path.
\<close>

record swe_state =
  swe_phi :: real
  swe_v :: real
  swe_label :: label

record swe_physics =
  swe_wavespeed_fn :: "real \<Rightarrow> real \<Rightarrow> int \<Rightarrow> real"
  swe_state_fn :: "real \<Rightarrow> real \<Rightarrow> real list"
  swe_odeint :: "(real \<Rightarrow> real \<Rightarrow> real) \<Rightarrow> real \<Rightarrow> real list \<Rightarrow> real list"

definition SWEState :: "real \<Rightarrow> real \<Rightarrow> label \<Rightarrow> swe_state" where
  "SWEState phi v lab = \<lparr>swe_phi = phi, swe_v = v, swe_label = lab\<rparr>"

definition swe_wavespeed :: "swe_physics \<Rightarrow> swe_state \<Rightarrow> int \<Rightarrow> real" where
  "swe_wavespeed ph s wavenumber = swe_wavespeed_fn ph (swe_phi s) (swe_v s) wavenumber"

definition swe_state_vec :: "swe_physics \<Rightarrow> swe_state \<Rightarrow> real list" where
  "swe_state_vec ph s = swe_state_fn ph (swe_phi s) (swe_v s)"

record swe_section =
  swe_trivial :: bool
  swe_type :: string
  swe_wavenumber :: int
  swe_q_start :: swe_state
  swe_q_end :: swe_state
  swe_sec_wavespeed :: "real list"

datatype swe_val = SNum real | SSt swe_state

definition SWEContact :: "swe_physics \<Rightarrow> swe_state \<Rightarrow> swe_val \<Rightarrow> int \<Rightarrow> error + swe_section" where
  "SWEContact ph q_start q_end_arg wavenumber =
     bind_e (assert_e (wavenumber \<in> set [1]) ''wavenumber for a Contact must be 1'') (\<lambda>_.
     case q_end_arg of
       SNum x \<Rightarrow> Inl (AttributeError ''state'')
     | SSt q_end \<Rightarrow>
         let trivial = allclose_list (swe_state_vec ph q_start) (swe_state_vec ph q_end)
         in
         bind_e (assert_e (allclose (swe_v q_start) (swe_v q_end))
                   ''Velocities of states must match for a contact'') (\<lambda>_.
         bind_e (assert_e (allclose (swe_phi q_start) (swe_phi q_end))
                   ''Phis of states must match for a contact'') (\<lambda>_.
         bind_e (assert_e (allclose (swe_wavespeed ph q_start wavenumber)
                                    (swe_wavespeed ph q_end wavenumber))
                   ''Wavespeeds of states must match for a contact'') (\<lambda>_.
         Inr \<lparr>swe_trivial = trivial, swe_type = ''Contact'', swe_wavenumber = wavenumber,
              swe_q_start = q_start, swe_q_end = q_end,
              swe_sec_wavespeed = [swe_v q_start]\<rparr>))))"

text \<open>\<^verbatim>\<open>numpy.linspace(a, b, n)\<close>; \<open>n\<close> is 50 when it is not given.\<close>

definition linspace :: "real \<Rightarrow> real \<Rightarrow> nat \<Rightarrow> real list" where
  "linspace a b n = map (\<lambda>i. a + real i * ((b - a) / real (n - 1))) [0..<n]"

definition raref :: "real \<Rightarrow> real \<Rightarrow> real \<Rightarrow> real" where
  "raref lr_sign v phi =
     (1 / 2) * (- (v ^ 3) + v - lr_sign * (v ^ 2 - 1) * sqrt (v ^ 2 + 4 / phi))"

definition rarefaction_solve ::
  "swe_physics \<Rightarrow> swe_state \<Rightarrow> real \<Rightarrow> real \<Rightarrow> nat \<Rightarrow> real list" where
  "rarefaction_solve ph q phi_star lr_sign n_phi_vals =
     (let (phi, v) = (swe_phi q, swe_v q);
          phi_points = linspace phi phi_star n_phi_vals
      in swe_odeint ph (raref lr_sign) v phi_points)"

text \<open>
  In \<^verbatim>\<open>SWERarefaction\<close> the speeds are assigned inside the \<^verbatim>\<open>else\<close> branch only: a
  trivial rarefaction keeps the empty list it starts with.
\<close>

definition SWERarefaction ::
  "swe_physics \<Rightarrow> swe_state \<Rightarrow> real \<Rightarrow> int \<Rightarrow> error + swe_section" where
  "SWERarefaction ph q_start phi_end wavenumber =
     bind_e (assert_e (wavenumber \<in> set [0, 2])
               ''wavenumber for a Rarefaction must be in 0, 2'') (\<lambda>_.
     bind_e (assert_e (swe_phi q_start \<ge> phi_end)
               ''For a rarefaction, phi_start >= phi_end'') (\<lambda>_.
     let lab = star_label wavenumber;
         v_known = swe_wavespeed ph q_start wavenumber
     in if allclose (swe_phi q_start) phi_end
        then Inr \<lparr>swe_trivial = True, swe_type = ''Rarefaction'', swe_wavenumber = wavenumber,
                  swe_q_start = q_start,
                  swe_q_end = SWEState (swe_phi q_start) (swe_v q_start) lab,
                  swe_sec_wavespeed = []\<rparr>
        else
          let lr_sign = real_of_int (wavenumber - 1);
              phi_points = linspace (swe_phi q_start) phi_end 50;
              v_raref = rarefaction_solve ph q_start phi_end lr_sign (length phi_points)
          in if v_raref = [] then Inl IndexError
             else
               let v_star = last v_raref;
                   q_end = SWEState phi_end v_star lab;
                   v_unknown = swe_wavespeed ph q_end wavenumber
               in Inr \<lparr>swe_trivial = False, swe_type = ''Rarefaction'',
                       swe_wavenumber = wavenumber, swe_q_start = q_start, swe_q_end = q_end,
                       swe_sec_wavespeed =
                         (if wavenumber = 0 then [v_known, v_unknown]
                          else [v_unknown, v_known])\<rparr>))"

definition analytic_shock :: "swe_state \<Rightarrow> real \<Rightarrow> real \<Rightarrow> real \<times> real" where
  "analytic_shock q phi_star lr_sign =
     (let (phi, v) = (swe_phi q, swe_v q);
          w_bar = sqrt (1 + phi_star / phi * (phi_star + phi) / 2);
          v_bar = - lr_sign * sqrt (1 - 1 / w_bar ^ 2);
          V_s = (v - v_bar) / (1 - v * v_bar);
          Wv_star_bar = phi * w_bar * v_bar / phi_star;
          w_star_bar = sqrt (1 + Wv_star_bar ^ 2);
          v_star_bar = - lr_sign * sqrt (1 - 1 / w_star_bar ^ 2);
          v_star = (v_star_bar + V_s) / (1 + v_star_bar * V_s)
      in (V_s, v_star))"

definition SWEShock :: "swe_physics \<Rightarrow> swe_state \<Rightarrow> real \<Rightarrow> int \<Rightarrow> error + swe_section" where
  "SWEShock ph q_start phi_end wavenumber =
     bind_e (assert_e (wavenumber \<in> set [0, 2]) ''wavenumber for a Shock must be in 0, 2'') (\<lambda>_.
     bind_e (assert_e (swe_phi q_start \<le> phi_end) ''For a shock, phi_start <= phi_end'') (\<lambda>_.
     let lr_sign = real_of_int (wavenumber - 1);
         lab = star_label wavenumber;
         (trivial, q_end, v_shock) =
           (if allclose (swe_phi q_start) phi_end
            then (True, SWEState (swe_phi q_start) (swe_v q_start) lab,
                  swe_wavespeed ph q_start wavenumber)
            else (case analytic_shock q_start phi_end lr_sign of
                    (v_shock, v_star) \<Rightarrow> (False, SWEState phi_end v_star lab, v_shock)))
     in Inr \<lparr>swe_trivial = trivial, swe_type = ''Shock'', swe_wavenumber = wavenumber,
             swe_q_start = q_start, swe_q_end = q_end, swe_sec_wavespeed = [v_shock]\<rparr>))"

definition swe_phi_less :: "swe_state \<Rightarrow> swe_val \<Rightarrow> error + (bool \<times> real)" where
  "swe_phi_less q_known unknown_value =
     (case unknown_value of
        SNum u \<Rightarrow> Inr (swe_phi q_known < u, u)
      | SSt _ \<Rightarrow> Inl (TypeError ''<''))"

definition build_wave_section ::
  "swe_physics \<Rightarrow> swe_state \<Rightarrow> swe_val \<Rightarrow> int \<Rightarrow> error + swe_section list" where
  "build_wave_section ph q_known unknown_value wavenumber =
     (if wavenumber = 1
      then bind_e (SWEContact ph q_known unknown_value wavenumber) (\<lambda>c. Inr [c])
      else bind_e (swe_phi_less q_known unknown_value) (\<lambda>(less, u).
           if less
           then bind_e (SWEShock ph q_known u wavenumber) (\<lambda>s. Inr [s])
           else bind_e (SWERarefaction ph q_known u wavenumber) (\<lambda>r. Inr [r])))"

text \<open>
  \<^verbatim>\<open>SWEWave.__init__\<close> first runs the initialiser of its base class, the name \<^verbatim>\<open>Wave\<close>
  that the package \<^verbatim>\<open>r3d2\<close> exports, on the shallow-water state; the class of that
  state is not among the sources, so what the base initialiser reads of it is not known.
  What the call leaves in \<^verbatim>\<open>self.wave_sections\<close> and \<^verbatim>\<open>self.wavespeed\<close> (or the
  exception it raises) is the parameter \<open>base\<close>; the body then appends to both lists.
  \<^verbatim>\<open>Wave.__init__\<close> of \<^verbatim>\<open>wave.py\<close> builds its own sections and appends a speed
  before it returns, so it leaves neither list empty.
\<close>

record swe_wave =
  sw_wavenumber :: int
  sw_wave_sections :: "swe_section list"
  sw_q_l :: swe_state
  sw_q_r :: swe_state
  sw_wavespeed :: "real list"
  sw_trivial :: bool

definition swe_edge_states ::
  "int \<Rightarrow> swe_state \<Rightarrow> swe_state list \<Rightarrow> swe_state \<times> swe_state" where
  "swe_edge_states wavenumber q_known ends =
     (if wavenumber = 0
      then (q_known, if ends \<noteq> [] then last ends else q_known)
      else if wavenumber = 1
      then (q_known, q_known)
      else (if ends \<noteq> [] then last ends else q_known, q_known))"

definition swe_aggregate ::
  "real list \<Rightarrow> int \<Rightarrow> swe_state \<Rightarrow> swe_section list \<Rightarrow> swe_wave" where
  "swe_aggregate base_wavespeed wavenumber q_known wave_sections =
     (let (q_l, q_r) = swe_edge_states wavenumber q_known (map swe_q_end wave_sections);
          speeds = concat (map swe_sec_wavespeed wave_sections);
          wavespeed = base_wavespeed @ speed_bracket speeds;
          trivial = list_all swe_trivial wave_sections
      in \<lparr>sw_wavenumber = wavenumber, sw_wave_sections = wave_sections,
           sw_q_l = q_l, sw_q_r = q_r,
           sw_wavespeed = (if trivial then [] else wavespeed),
           sw_trivial = trivial\<rparr>)"

definition SWEWave ::
  "swe_physics \<Rightarrow> error + (swe_section list \<times> real list) \<Rightarrow>
   swe_state \<Rightarrow> swe_val \<Rightarrow> int \<Rightarrow> error + swe_wave" where
  "SWEWave ph base q_known unknown_value wavenumber =
     bind_e base (\<lambda>(base_sections, base_wavespeed).
     bind_e (build_wave_section ph q_known unknown_value wavenumber) (\<lambda>waves.
     Inr (swe_aggregate base_wavespeed wavenumber q_known (base_sections @ waves))))"

section \<open>Concrete inputs\<close>

text \<open>
  The inputs at which the theorems below are instantiated: an ideal gas with adiabatic
  index \<open>5/3\<close>, inert and with a heat release of \<open>23/28\<close>; a fluid at rest; a sound
  speed of \<open>1/3\<close>; a root finder that makes one bisection step and an integrator that
  makes one Euler step.
\<close>

definition ex_h :: "real \<Rightarrow> real \<Rightarrow> real \<Rightarrow> real" where
  "ex_h q rho p = 1 + q + (5 / 2) * p / rho"

definition ex_t :: "real \<Rightarrow> real \<Rightarrow> real \<Rightarrow> real" where
  "ex_t q rho eps = eps - q"

definition ex_inert_eos :: eos where
  "ex_inert_eos = EOS (Some (ex_h 0)) (Some (ex_t 0)) None None None"

definition ex_reactive_eos :: eos where
  "ex_reactive_eos =
     EOS (Some (ex_h (23 / 28))) (Some (ex_t (23 / 28)))
       (Some (1 / 2)) (Some ex_inert_eos) (Some (23 / 28))"

definition eos_q :: "eos \<Rightarrow> real" where
  "eos_q e = (case q_available e of None \<Rightarrow> 0 | Some x \<Rightarrow> x)"

definition ex_physics :: physics where
  "ex_physics =
     \<lparr>p_fn = (\<lambda>rho v vt eps e. (2 / 3) * rho * (eps - eos_q e)),
      h_fn = (\<lambda>rho v vt eps e. 1 + eps + (2 / 3) * (eps - eos_q e)),
      cs_fn = (\<lambda>rho v vt eps e. 1 / 3),
      W_lorentz_fn = (\<lambda>rho v vt eps e. 1 / sqrt (1 - v ^ 2 - vt ^ 2)),
      wavespeed_fn = (\<lambda>rho v vt eps e wavenumber.
         (v + real_of_int (wavenumber - 1) / 3) / (1 + real_of_int (wavenumber - 1) * v / 3)),
      vt_from_known_fn = (\<lambda>rho0 v0 vt0 eps0 e0 rho v eps. vt0),
      q_init = q_available,
      brentq = (\<lambda>f a b. Inr ((a + b) / 2)),
      odeint = (\<lambda>f w0 a b. case (w0, f w0 a) of
                  ((x, y, z), (dx, dy, dz)) \<Rightarrow>
                    (x + (b - a) * dx, y + (b - a) * dy, z + (b - a) * dz))\<rparr>"

definition ex_state :: state where
  "ex_state = \<lparr>s_rho = 1, s_v = 0, s_vt = 0, s_eps = 9 / 14, s_eos = ex_inert_eos,
               s_label = NoLabel, s_q = None\<rparr>"

definition ex_reactive_state :: state where
  "ex_reactive_state =
     \<lparr>s_rho = 1, s_v = 0, s_vt = 0, s_eps = 41 / 28, s_eos = ex_reactive_eos,
      s_label = NoLabel, s_q = Some (23 / 28)\<rparr>"

definition ex_swe_physics :: swe_physics where
  "ex_swe_physics =
     \<lparr>swe_wavespeed_fn = (\<lambda>phi v wavenumber.
         (v + real_of_int (wavenumber - 1) / 3) / (1 + real_of_int (wavenumber - 1) * v / 3)),
      swe_state_fn = (\<lambda>phi v. [phi, v, 1 / sqrt (1 - v ^ 2)]),
      swe_odeint = (\<lambda>f y0 ts. map (\<lambda>t. y0 + (t - hd ts) * f y0 (hd ts)) ts)\<rparr>"

definition ex_swe_state :: swe_state where
  "ex_swe_state = \<lparr>swe_phi = 1, swe_v = 0, swe_label = NoLabel\<rparr>"

text \<open>
  An equation of state whose enthalpy is the constant \<open>29/14\<close>, the enthalpy of
  \<open>ex_state\<close>, and the state \<open>ex_state\<close> with it.
\<close>

definition ex_flat_h :: "real \<Rightarrow> real \<Rightarrow> real" where
  "ex_flat_h rho p = 29 / 14"

definition ex_flat_eos :: eos where
  "ex_flat_eos = EOS (Some ex_flat_h) (Some (ex_t 0)) None None None"

definition ex_flat_state :: state where
  "ex_flat_state = \<lparr>s_rho = 1, s_v = 0, s_vt = 0, s_eps = 9 / 14, s_eos = ex_flat_eos,
                    s_label = NoLabel, s_q = None\<rparr>"

text \<open>
  A cold fuel for the precursor shock: the enthalpy of the fuel is four times its
  density, that of the burnt product \<open>15/4\<close> times its density, the pressure
  follows from \<open>h = 1 + \<epsilon> + p / \<rho>\<close>, the temperature is \<open>\<epsilon>\<close> and ignition is at
  \<open>52/25\<close>.  The known state is at rest with temperature \<open>2\<close> and pressure \<open>1\<close>; its
  progress variable \<open>1/2\<close> is not the one the constructor gives a new state.
\<close>

definition ex_fuel_h :: "real \<Rightarrow> real \<Rightarrow> real" where
  "ex_fuel_h rho p = 4 * rho"

definition ex_burnt_h :: "real \<Rightarrow> real \<Rightarrow> real" where
  "ex_burnt_h rho p = (15 / 4) * rho"

definition ex_burnt_eos :: eos where
  "ex_burnt_eos = EOS (Some ex_burnt_h) (Some (ex_t 0)) None None None"

definition ex_fuel_eos :: eos where
  "ex_fuel_eos =
     EOS (Some ex_fuel_h) (Some (ex_t 0)) (Some (52 / 25)) (Some ex_burnt_eos) (Some 1)"

definition eos_h :: "eos \<Rightarrow> real \<Rightarrow> real" where
  "eos_h e rho = (case h_from_rho_p e of None \<Rightarrow> 0 | Some hf \<Rightarrow> hf rho 0)"

definition ex_cold_physics :: physics where
  "ex_cold_physics =
     ex_physics\<lparr>p_fn := (\<lambda>rho v vt eps e. rho * (eos_h e rho - 1 - eps)),
                h_fn := (\<lambda>rho v vt eps e. eos_h e rho)\<rparr>"

definition ex_cold_state :: state where
  "ex_cold_state = \<lparr>s_rho = 1, s_v = 0, s_vt = 0, s_eps = 2, s_eos = ex_fuel_eos,
                    s_label = NoLabel, s_q = Some (1 / 2)\<rparr>"

text \<open>
  An outcome of the base initialiser of the shape that \<^verbatim>\<open>Wave.__init__\<close> leaves: one
  section, and the bracket of its speeds.
\<close>

definition ex_base_section :: swe_section where
  "ex_base_section =
     \<lparr>swe_trivial = False, swe_type = ''Shock'', swe_wavenumber = 2,
      swe_q_start = ex_swe_state, swe_q_end = ex_swe_state, swe_sec_wavespeed = [1 / 2]\<rparr>"

definition ex_swe_base :: "error + (swe_section list \<times> real list)" where
  "ex_swe_base = Inr ([ex_base_section], speed_bracket (swe_sec_wavespeed ex_base_section))"

section \<open>Basic facts\<close>

lemma bind_e_simps [simp]: "bind_e (Inl e) f = Inl e" "bind_e (Inr x) f = f x"
  by (simp_all add: bind_e_def)

lemma bind_e_Inr_iff: "bind_e m f = Inr y \<longleftrightarrow> (\<exists>x. m = Inr x \<and> f x = Inr y)"
  by (cases m) simp_all

lemma assert_e_simps [simp]:
  "assert_e True msg = Inr ()" "assert_e False msg = Inl (AssertionError msg)"
  by (simp_all add: assert_e_def)

lemma assert_e_Inr_iff [simp]: "assert_e c msg = Inr u \<longleftrightarrow> c"
  by (simp add: assert_e_def)

lemma lookup_Inr_iff [simp]: "lookup entry key = Inr x \<longleftrightarrow> entry = Some x"
  by (simp add: lookup_def split: option.splits)

lemma allclose_refl [simp]: "allclose x x"
  by (simp add: allclose_def)

lemmas ex_defs = ex_physics_def ex_state_def eos_q_def ex_inert_eos_def ex_reactive_eos_def
  ex_reactive_state_def ex_swe_state_def ex_swe_physics_def

lemmas st_defs = s_p_def s_h_def s_cs_def s_W_lorentz_def s_wavespeed_def vt_from_known_def
  State_def swe_wavespeed_def swe_state_vec_def SWEState_def star_label_def

section \<open>Edge states of a wave\<close>

lemma Wave_Inr_aggregate:
  assumes "Wave ph q_known unknown_value wavenumber = Inr w"
  shows "\<exists>ws. w = aggregate wavenumber q_known ws"
  using assms by (auto simp: Wave_def bind_e_Inr_iff)

lemma SWEWave_Inr_aggregate:
  assumes "SWEWave ph base q_known unknown_value wavenumber = Inr w"
  shows "\<exists>bw ws. w = swe_aggregate bw wavenumber q_known ws"
  using assms by (auto simp: SWEWave_def bind_e_Inr_iff)

lemma aggregate_edges:
  "w_q_l (aggregate wavenumber q_known ws) =
     (if wavenumber = 0 \<or> wavenumber = 1 \<or> ws = [] then q_known else sec_q_end (last ws))"
  "w_q_r (aggregate wavenumber q_known ws) =
     (if wavenumber = 0 \<and> ws \<noteq> [] then sec_q_end (last ws) else q_known)"
  "w_wave_sections (aggregate wavenumber q_known ws) = ws"
  by (simp_all add: aggregate_def edge_states_def last_map)

lemma swe_aggregate_edges:
  "sw_q_l (swe_aggregate bw wavenumber q_known ws) =
     (if wavenumber = 0 \<or> wavenumber = 1 \<or> ws = [] then q_known else swe_q_end (last ws))"
  "sw_q_r (swe_aggregate bw wavenumber q_known ws) =
     (if wavenumber = 0 \<and> ws \<noteq> [] then swe_q_end (last ws) else q_known)"
  "sw_wave_sections (swe_aggregate bw wavenumber q_known ws) = ws"
  by (simp_all add: swe_aggregate_def swe_edge_states_def last_map Let_def)

text \<open>
  C1.  In a constructed wave of either family: for the wavenumber 0, \<open>q_l\<close> is the known
  state and \<open>q_r\<close> the end state of the last section (\<open>q_l\<close> when there is no section);
  for the wavenumber 2 the roles are exchanged; for the wavenumber 1 both are the known
  state.
\<close>

theorem wave_edge_states:
  "(Wave ph q_known unknown_value wavenumber = Inr w \<longrightarrow>
      (wavenumber = 0 \<longrightarrow> w_q_l w = q_known \<and>
         w_q_r w = (if w_wave_sections w = [] then w_q_l w
                    else sec_q_end (last (w_wave_sections w)))) \<and>
      (wavenumber = 2 \<longrightarrow> w_q_r w = q_known \<and>
         w_q_l w = (if w_wave_sections w = [] then w_q_r w
                    else sec_q_end (last (w_wave_sections w)))) \<and>
      (wavenumber = 1 \<longrightarrow> w_q_l w = q_known \<and> w_q_r w = q_known)) \<and>
   (SWEWave sph base sq_known sunknown_value swavenumber = Inr sw \<longrightarrow>
      (swavenumber = 0 \<longrightarrow> sw_q_l sw = sq_known \<and>
         sw_q_r sw = (if sw_wave_sections sw = [] then sw_q_l sw
                      else swe_q_end (last (sw_wave_sections sw)))) \<and>
      (swavenumber = 2 \<longrightarrow> sw_q_r sw = sq_known \<and>
         sw_q_l sw = (if sw_wave_sections sw = [] then sw_q_r sw
                      else swe_q_end (last (sw_wave_sections sw)))) \<and>
      (swavenumber = 1 \<longrightarrow> sw_q_l sw = sq_known \<and> sw_q_r sw = sq_known))"
  by (auto dest!: Wave_Inr_aggregate SWEWave_Inr_aggregate
        simp: aggregate_edges swe_aggregate_edges)

lemma ex_inert_wave:
  "wavenumber = 0 \<or> wavenumber = 2 \<Longrightarrow>
   \<exists>w. Wave ex_physics ex_state (Num (3 / 7)) wavenumber = Inr w \<and> w_wave_sections w \<noteq> []"
  by (auto simp: Wave_def build_inert_wave_section_def p_less_def Rarefaction_def
        aggregate_edges ex_defs s_p_def Let_def case_prod_beta)

lemma ex_contact_wave:
  "\<exists>w. Wave ex_physics ex_state (St ex_state) 1 = Inr w"
  by (simp add: Wave_def build_inert_wave_section_def Contact_def ex_state_def ex_inert_eos_def)

lemma ex_swe_wave:
  "\<exists>w. SWEWave ex_swe_physics ex_swe_base ex_swe_state (SNum 2) 2 = Inr w \<and>
        sw_wave_sections w \<noteq> []"
  by (simp add: SWEWave_def build_wave_section_def swe_phi_less_def SWEShock_def ex_swe_base_def
        swe_aggregate_edges ex_swe_state_def Let_def allclose_def case_prod_beta)

theorem wave_edge_states_witness:
  "\<exists>w0 w1 w2 sw.
     Wave ex_physics ex_state (Num (3 / 7)) 0 = Inr w0 \<and> w_wave_sections w0 \<noteq> [] \<and>
     w_q_l w0 = ex_state \<and> w_q_r w0 = sec_q_end (last (w_wave_sections w0)) \<and>
     Wave ex_physics ex_state (St ex_state) 1 = Inr w1 \<and>
     w_q_l w1 = ex_state \<and> w_q_r w1 = ex_state \<and>
     Wave ex_physics ex_state (Num (3 / 7)) 2 = Inr w2 \<and> w_wave_sections w2 \<noteq> [] \<and>
     w_q_r w2 = ex_state \<and> w_q_l w2 = sec_q_end (last (w_wave_sections w2)) \<and>
     SWEWave ex_swe_physics ex_swe_base ex_swe_state (SNum 2) 2 = Inr sw \<and>
     sw_wave_sections sw \<noteq> [] \<and>
     sw_q_r sw = ex_swe_state \<and> sw_q_l sw = swe_q_end (last (sw_wave_sections sw))"
proof -
  obtain w0 where w0: "Wave ex_physics ex_state (Num (3 / 7)) 0 = Inr w0"
      "w_wave_sections w0 \<noteq> []"
    using ex_inert_wave [of 0] by auto
  obtain w1 where w1: "Wave ex_physics ex_state (St ex_state) 1 = Inr w1"
    using ex_contact_wave by auto
  obtain w2 where w2: "Wave ex_physics ex_state (Num (3 / 7)) 2 = Inr w2"
      "w_wave_sections w2 \<noteq> []"
    using ex_inert_wave [of 2] by auto
  obtain sw where sw: "SWEWave ex_swe_physics ex_swe_base ex_swe_state (SNum 2) 2 = Inr sw"
     "sw_wave_sections sw \<noteq> []"
    using ex_swe_wave by auto
  note inst = wave_edge_states [where ph = ex_physics and q_known = ex_state
            and sph = ex_swe_physics and base = ex_swe_base
            and sq_known = ex_swe_state and sunknown_value = "SNum 2" and swavenumber = 2
            and sw = sw]
  show ?thesis
    using w0 w1 w2 sw
      inst [where unknown_value = "Num (3 / 7)" and wavenumber = 0 and w = w0]
      inst [where unknown_value = "St ex_state" and wavenumber = 1 and w = w1]
      inst [where unknown_value = "Num (3 / 7)" and wavenumber = 2 and w = w2]
    by auto
qed

section \<open>Precondition of a rarefaction\<close>

text \<open>
  C6.  A rarefaction whose target coupling value is strictly greater than that of the
  start state is refused with an assertion error, in both families: no section is built.
\<close>

theorem rarefaction_rejects_greater_target:
  "(s_p ph q_start < p_end \<longrightarrow>
      (\<exists>msg. Rarefaction ph q_start p_end wavenumber = Inl (AssertionError msg))) \<and>
   (swe_phi q < phi_end \<longrightarrow>
      (\<exists>msg. SWERarefaction sph q phi_end wavenumber = Inl (AssertionError msg)))"
  by (auto simp: Rarefaction_def SWERarefaction_def assert_e_def)

theorem rarefaction_rejects_greater_target_witness:
  "s_p ex_physics ex_state < 1 \<and>
   (\<exists>msg. Rarefaction ex_physics ex_state 1 0 = Inl (AssertionError msg)) \<and>
   swe_phi ex_swe_state < 2 \<and>
   (\<exists>msg. SWERarefaction ex_swe_physics ex_swe_state 2 0 = Inl (AssertionError msg))"
proof -
  have a: "s_p ex_physics ex_state < 1"
    by (simp add: s_p_def ex_defs)
  have b: "swe_phi ex_swe_state < 2"
    by (simp add: ex_swe_state_def)
  show ?thesis
    using a b rarefaction_rejects_greater_target
      [where ph = ex_physics and q_start = ex_state and p_end = 1 and q = ex_swe_state
         and phi_end = 2 and wavenumber = 0 and sph = ex_swe_physics]
    by blast
qed

section \<open>Contacts\<close>

text \<open>
  C10.  A relativistic \<^verbatim>\<open>Contact\<close> between a state and itself is built, but its trivial
  flag is false: the constructor of \<^verbatim>\<open>wave.py\<close> never sets it.
\<close>

theorem contact_of_equal_states_not_trivial:
  "Contact ph q (St q) 1 =
     Inr \<lparr>sec_trivial = False, sec_type = ''Contact'', sec_wavenumber = 1,
          sec_q_start = q, sec_q_end = q, sec_wavespeed = [s_v q]\<rparr>"
  by (simp add: Contact_def)

text \<open>The shallow-water contact is built under the same conditions and compares the states.\<close>

lemma SWEContact_trivial_iff:
  assumes "swe_v a = swe_v b" "swe_phi a = swe_phi b"
    "swe_wavespeed sph a 1 = swe_wavespeed sph b 1"
  shows "\<exists>s. SWEContact sph a (SSt b) 1 = Inr s \<and>
           (swe_trivial s \<longleftrightarrow> allclose_list (swe_state_vec sph a) (swe_state_vec sph b))"
  using assms by (simp add: SWEContact_def Let_def)

lemma Contact_never_trivial:
  "Contact ph a b wavenumber = Inr s \<Longrightarrow> \<not> sec_trivial s"
  by (cases b) (auto simp: Contact_def bind_e_Inr_iff)

section \<open>A wave of the wavenumber 1\<close>

text \<open>
  C5.  With a reactive equation of state (one that has the key \<^verbatim>\<open>'q_available'\<close>) the
  wavenumber 1 never yields a wave: \<^verbatim>\<open>build_reactive_wave_section\<close> hands back a bare
  \<^verbatim>\<open>Contact\<close>, and \<^verbatim>\<open>Wave.__init__\<close> fails when it iterates over it.
\<close>

theorem reactive_contact_wave_fails:
  "q_available (s_eos q_known) \<noteq> None \<Longrightarrow> \<exists>e. Wave ph q_known unknown_value 1 = Inl e"
  by (cases "t_ignition (s_eos q_known)"; cases "Contact ph q_known unknown_value 1")
     (auto simp: Wave_def build_reactive_wave_section_def lookup_def iterate_sections_def)

theorem reactive_contact_wave_fails_witness:
  "q_available (s_eos ex_reactive_state) \<noteq> None \<and>
   Wave ex_physics ex_reactive_state (St ex_reactive_state) 1 =
     Inl (TypeError ''Contact object is not iterable'')"
  using reactive_contact_wave_fails [of ex_reactive_state ex_physics "St ex_reactive_state"]
  by (simp add: Wave_def build_reactive_wave_section_def lookup_def iterate_sections_def
       Contact_def ex_reactive_state_def ex_reactive_eos_def)

lemma inert_contact_wave:
  "q_available (s_eos q) = None \<Longrightarrow>
   \<exists>c. Contact ph q (St q) 1 = Inr c \<and>
       Wave ph q (St q) 1 = Inr (aggregate 1 q [c]) \<and> sec_type c = ''Contact''"
  by (simp add: Wave_def build_inert_wave_section_def Contact_def)

section \<open>Trivial sections\<close>

text \<open>
  C4, as it stands, fails: a target within the tolerance of the start value but above it
  is refused by the rarefaction.
\<close>

theorem trivial_rarefaction_counterexample:
  "allclose (s_p ex_physics ex_state) (3 / 7 + 1 / 10 ^ 9) \<and>
   Rarefaction ex_physics ex_state (3 / 7 + 1 / 10 ^ 9) 0 =
     Inl (AssertionError ''For a rarefaction, p_start >= p_end'')"
  by (simp add: Rarefaction_def s_p_def ex_defs allclose_def)

text \<open>
  C4, amended.  When the target is within the tolerance of the start value and the
  checks of the constructor hold (the wavenumber is 0 or 2; the target is not above the
  start for a rarefaction and a deflagration, not below it for a detonation and a
  shallow-water shock; for a deflagration and a detonation the equation of state has
  its reactive entries and the start temperature reaches the ignition temperature), the
  section is built, it is trivial, its end state has the primary variables of the start
  state, and every speed it reports is the characteristic speed of the start state: once
  for a shock, twice for a rarefaction, a deflagration and a detonation.
\<close>

theorem trivial_sections:
  assumes "wavenumber = 0 \<or> wavenumber = 2"
  shows
  "(allclose (s_p ph q) p_end \<longrightarrow>
      (s_p ph q \<ge> p_end \<longrightarrow>
         (\<exists>s. Rarefaction ph q p_end wavenumber = Inr s \<and> sec_trivial s \<and>
            s_rho (sec_q_end s) = s_rho q \<and> s_v (sec_q_end s) = s_v q \<and>
            s_vt (sec_q_end s) = s_vt q \<and> s_eps (sec_q_end s) = s_eps q \<and>
            sec_wavespeed s = [s_wavespeed ph q wavenumber, s_wavespeed ph q wavenumber])) \<and>
      (\<exists>s. Shock ph q p_end wavenumber = Inr s \<and> sec_trivial s \<and>
            s_rho (sec_q_end s) = s_rho q \<and> s_v (sec_q_end s) = s_v q \<and>
            s_vt (sec_q_end s) = s_vt q \<and> s_eps (sec_q_end s) = s_eps q \<and>
            sec_wavespeed s = [s_wavespeed ph q wavenumber]) \<and>
      (eos_inert (s_eos q) \<noteq> None \<and> t_ignition (s_eos q) = Some t_i \<and>
       t_from_rho_eps (s_eos q) = Some tf \<and> tf (s_rho q) (s_eps q) \<ge> t_i \<longrightarrow>
         (s_p ph q \<ge> p_end \<longrightarrow>
            (\<exists>s. Deflagration ph q p_end wavenumber = Inr s \<and> sec_trivial s \<and>
               s_rho (sec_q_end s) = s_rho q \<and> s_v (sec_q_end s) = s_v q \<and>
               s_vt (sec_q_end s) = s_vt q \<and> s_eps (sec_q_end s) = s_eps q \<and>
               sec_wavespeed s =
                 [s_wavespeed ph q wavenumber, s_wavespeed ph q wavenumber])) \<and>
         (s_p ph q \<le> p_end \<longrightarrow>
            (\<exists>s. Detonation ph q p_end wavenumber = Inr s \<and> sec_trivial s \<and>
               s_rho (sec_q_end s) = s_rho q \<and> s_v (sec_q_end s) = s_v q \<and>
               s_vt (sec_q_end s) = s_vt q \<and> s_eps (sec_q_end s) = s_eps q \<and>
               sec_wavespeed s =
                 [s_wavespeed ph q wavenumber, s_wavespeed ph q wavenumber])))) \<and>
   (allclose (swe_phi sq) phi_end \<longrightarrow>
      (swe_phi sq \<le> phi_end \<longrightarrow>
         (\<exists>s. SWEShock sph sq phi_end wavenumber = Inr s \<and> swe_trivial s \<and>
            swe_phi (swe_q_end s) = swe_phi sq \<and> swe_v (swe_q_end s) = swe_v sq \<and>
            swe_sec_wavespeed s = [swe_wavespeed sph sq wavenumber])) \<and>
      (swe_phi sq \<ge> phi_end \<longrightarrow>
         (\<exists>s. SWERarefaction sph sq phi_end wavenumber = Inr s \<and> swe_trivial s \<and>
            swe_phi (swe_q_end s) = swe_phi sq \<and> swe_v (swe_q_end s) = swe_v sq)))"
  using assms
  by (auto simp: Rarefaction_def Shock_def Deflagration_def Detonation_def SWEShock_def
      SWERarefaction_def State_def SWEState_def Let_def lookup_def)

theorem trivial_sections_witness:
  "allclose (s_p ex_physics ex_reactive_state) (3 / 7 - 1 / 10 ^ 9) \<and>
   s_p ex_physics ex_reactive_state \<ge> 3 / 7 - 1 / 10 ^ 9 \<and>
   (\<exists>s. Rarefaction ex_physics ex_reactive_state (3 / 7 - 1 / 10 ^ 9) 2 = Inr s \<and>
        sec_trivial s \<and> sec_wavespeed s = [1 / 3, 1 / 3]) \<and>
   (\<exists>s. Shock ex_physics ex_reactive_state (3 / 7 - 1 / 10 ^ 9) 2 = Inr s \<and>
        sec_trivial s \<and> sec_wavespeed s = [1 / 3]) \<and>
   (\<exists>s. Deflagration ex_physics ex_reactive_state (3 / 7 - 1 / 10 ^ 9) 2 = Inr s \<and>
        sec_trivial s \<and> s_eps (sec_q_end s) = 41 / 28 \<and> sec_wavespeed s = [1 / 3, 1 / 3]) \<and>
   allclose (s_p ex_physics ex_reactive_state) (3 / 7) \<and>
   (\<exists>s. Detonation ex_physics ex_reactive_state (3 / 7) 2 = Inr s \<and>
        sec_trivial s \<and> s_eps (sec_q_end s) = 41 / 28 \<and> sec_wavespeed s = [1 / 3, 1 / 3]) \<and>
   allclose (swe_phi ex_swe_state) 1 \<and>
   (\<exists>s. SWEShock ex_swe_physics ex_swe_state 1 2 = Inr s \<and> swe_trivial s \<and>
        swe_sec_wavespeed s = [1 / 3]) \<and>
   (\<exists>s. SWERarefaction ex_swe_physics ex_swe_state 1 2 = Inr s \<and> swe_trivial s \<and>
        swe_phi (swe_q_end s) = 1)"
proof -
  have p: "s_p ex_physics ex_reactive_state = 3 / 7"
    by (simp add: s_p_def ex_defs)
  have ws: "s_wavespeed ex_physics ex_reactive_state 2 = 1 / 3"
    by (simp add: s_wavespeed_def ex_defs)
  have sws: "swe_wavespeed ex_swe_physics ex_swe_state 2 = 1 / 3"
    by (simp add: swe_wavespeed_def ex_defs)
  have e: "eos_inert (s_eos ex_reactive_state) \<noteq> None"
      "t_ignition (s_eos ex_reactive_state) = Some (1 / 2)"
      "t_from_rho_eps (s_eos ex_reactive_state) = Some (ex_t (23 / 28))"
      "(ex_t (23 / 28)) (s_rho ex_reactive_state) (s_eps ex_reactive_state)
         \<ge> (1 / 2 :: real)"
      "s_eps ex_reactive_state = 41 / 28"
    by (simp_all add: ex_defs ex_t_def)
  have a1: "allclose (s_p ex_physics ex_reactive_state) (3 / 7 - 1 / 10 ^ 9)"
    by (simp add: p allclose_def)
  have a2: "allclose (s_p ex_physics ex_reactive_state) (3 / 7)"
    by (simp add: p)
  have a3: "allclose (swe_phi ex_swe_state) 1" "swe_phi ex_swe_state = 1"
    by (simp_all add: ex_defs)
  note t = trivial_sections [where wavenumber = 2 and ph = ex_physics
      and q = ex_reactive_state and t_i = "1 / 2" and tf = "ex_t (23 / 28)"
      and sph = ex_swe_physics and sq = ex_swe_state and phi_end = 1]
  show ?thesis
    using t [where p_end = "3 / 7 - 1 / 10 ^ 9"] t [where p_end = "3 / 7"] a1 a2 a3 e
    by (simp add: p ws sws) blast
qed

section \<open>The least and the greatest speed of a wave\<close>

lemma minspeed_of_Min: "minspeed_of speeds = Min (insert 10 (set speeds))"
proof -
  have "foldl (\<lambda>minspeed speed. min speed minspeed) a speeds = Min (insert a (set speeds))"
    for a :: real
  proof (induction speeds arbitrary: a)
    case Nil
    then show ?case by simp
  next
    case (Cons x xs)
    have "Min (insert (min x a) (set xs)) = Min (insert a (insert x (set xs)))"
      by (cases "set xs = {}") (simp_all add: min.commute min.left_commute)
    with Cons show ?case by simp
  qed
  then show ?thesis by (simp add: minspeed_of_def)
qed

lemma maxspeed_of_Max: "maxspeed_of speeds = Max (insert (- 10) (set speeds))"
proof -
  have "foldl (\<lambda>maxspeed speed. max speed maxspeed) a speeds = Max (insert a (set speeds))"
    for a :: real
  proof (induction speeds arbitrary: a)
    case Nil
    then show ?case by simp
  next
    case (Cons x xs)
    have "Max (insert (max x a) (set xs)) = Max (insert a (insert x (set xs)))"
      by (cases "set xs = {}") (simp_all add: max.commute max.left_commute)
    with Cons show ?case by simp
  qed
  then show ?thesis by (simp add: maxspeed_of_def)
qed

lemma sentinels_vanish:
  assumes "speeds \<noteq> []" "\<forall>s \<in> set speeds. - 10 \<le> s \<and> s \<le> 10"
  shows "minspeed_of speeds = Min (set speeds)" "maxspeed_of speeds = Max (set speeds)"
proof -
  have ne: "set speeds \<noteq> {}" "finite (set speeds)" using assms by simp_all
  from assms obtain x where x: "x \<in> set speeds" by (cases speeds) auto
  with assms have "- 10 \<le> x" "x \<le> 10" by auto
  moreover have "Min (set speeds) \<le> x" "x \<le> Max (set speeds)" using x by simp_all
  ultimately have "Min (set speeds) \<le> 10" "- 10 \<le> Max (set speeds)" by linarith+
  then show "minspeed_of speeds = Min (set speeds)" "maxspeed_of speeds = Max (set speeds)"
    using ne Min_insert [of "set speeds" 10] Max_insert [of "set speeds" "- 10"]
    by (simp_all add: minspeed_of_Min maxspeed_of_Max del: Min_insert Max_insert)
qed

section \<open>The speed bracket of a wave whose sections are all trivial\<close>

lemma SWEWave_Inr_fields:
  assumes "SWEWave sph (Inr (bs, bw)) q u wavenumber = Inr w"
  shows "sw_trivial w = list_all swe_trivial (sw_wave_sections w)"
    and "sw_wavespeed w =
           (if sw_trivial w then []
            else bw @ speed_bracket (concat (map swe_sec_wavespeed (sw_wave_sections w))))"
proof -
  from assms obtain ws where "w = swe_aggregate bw wavenumber q ws"
    by (auto simp: SWEWave_def bind_e_Inr_iff)
  then show "sw_trivial w = list_all swe_trivial (sw_wave_sections w)"
    and "sw_wavespeed w =
           (if sw_trivial w then []
            else bw @ speed_bracket (concat (map swe_sec_wavespeed (sw_wave_sections w))))"
    by (simp_all add: swe_aggregate_def Let_def case_prod_beta)
qed

text \<open>
  The shallow-water wave does what is asked of a wave: it is trivial exactly when every
  section is, and then it has no speed.
\<close>

lemma swe_trivial_wave_discards_bracket:
  assumes "SWEWave sph (Inr (bs, bw)) q u wavenumber = Inr w"
    and "list_all swe_trivial (sw_wave_sections w)"
  shows "sw_trivial w" and "sw_wavespeed w = []"
  using SWEWave_Inr_fields [OF assms(1)] assms(2) by simp_all

lemma Wave_Inr_wavespeed:
  assumes "Wave ph q u wavenumber = Inr w"
  shows "w_wavespeed w = speed_bracket (concat (map sec_wavespeed (w_wave_sections w)))"
proof -
  from assms obtain ws where "w = aggregate wavenumber q ws"
    using Wave_Inr_aggregate by blast
  then show ?thesis by (simp add: aggregate_def case_prod_beta)
qed

lemma speed_bracket_not_empty: "speed_bracket speeds \<noteq> []"
  by (simp add: speed_bracket_def Let_def)

lemma ex_trivial_wave:
  "Wave ex_physics ex_state (Num (3 / 7)) 0 =
     Inr \<lparr>w_wavenumber = 0,
          w_wave_sections =
            [\<lparr>sec_trivial = True, sec_type = ''Rarefaction'', sec_wavenumber = 0,
              sec_q_start = ex_state,
              sec_q_end = ex_state\<lparr>s_label := StrLabel ''star_L''\<rparr>,
              sec_wavespeed = [- (1 / 3), - (1 / 3)]\<rparr>],
          w_q_l = ex_state,
          w_q_r = ex_state\<lparr>s_label := StrLabel ''star_L''\<rparr>,
          w_wavespeed = [- (1 / 3)]\<rparr>"
  by (simp add: Wave_def build_inert_wave_section_def p_less_def Rarefaction_def aggregate_def
       edge_states_def speed_bracket_def minspeed_of_def maxspeed_of_def Let_def
       ex_defs st_defs)

text \<open>
  C8.  A relativistic wave all of whose sections are trivial is built with a speed
  bracket all the same: the bracket of the speeds of its sections, which is never empty.
  (The record of a relativistic wave has no trivial flag, as the class has none.)
\<close>

theorem trivial_wave_keeps_bracket:
  assumes "Wave ph q_known unknown_value wavenumber = Inr w"
    and "list_all sec_trivial (w_wave_sections w)"
  shows "w_wavespeed w = speed_bracket (concat (map sec_wavespeed (w_wave_sections w))) \<and>
         w_wavespeed w \<noteq> []"
  using Wave_Inr_wavespeed [OF assms(1)] speed_bracket_not_empty by simp

theorem trivial_wave_keeps_bracket_witness:
  "\<exists>w. Wave ex_physics ex_state (Num (3 / 7)) 0 = Inr w \<and>
       list_all sec_trivial (w_wave_sections w) \<and>
       w_wavespeed w \<noteq> [] \<and> w_wavespeed w = [- (1 / 3)]"
proof -
  obtain w where w: "Wave ex_physics ex_state (Num (3 / 7)) 0 = Inr w"
    and t: "list_all sec_trivial (w_wave_sections w)"
    and v: "w_wavespeed w = [- (1 / 3)]"
    using ex_trivial_wave by simp
  from trivial_wave_keeps_bracket [OF w t] have "w_wavespeed w \<noteq> []" by blast
  with w t v show ?thesis by blast
qed

section \<open>The bracket-widening loop\<close>

lemma widen_bracket_never_returns:
  assumes "\<forall>n. f (a / d1 ^ n) * f (b * d2 ^ n) > 0"
  shows "widen_bracket f d1 d2 a b (f a) (f b) = None"
proof (rule ccontr)
  assume "widen_bracket f d1 d2 a b (f a) (f b) \<noteq> None"
  then obtain y where y: "widen_bracket f d1 d2 a b (f a) (f b) = Some y" by auto
  define P where "P = (\<lambda>(g :: real \<Rightarrow> real) e1 e2 a' b' ra rb (z :: real \<times> real).
      \<not> (ra = g a' \<and> rb = g b' \<and> (\<forall>n. g (a' / e1 ^ n) * g (b' * e2 ^ n) > 0)))"
  have "P f d1 d2 a b (f a) (f b) y"
  proof (rule widen_bracket.raw_induct [where P = P, OF _ y])
    fix widen :: "(real \<Rightarrow> real) \<Rightarrow> real \<Rightarrow> real \<Rightarrow> real \<Rightarrow> real \<Rightarrow> real \<Rightarrow> real \<Rightarrow>
                  (real \<times> real) option"
      and g :: "real \<Rightarrow> real" and e1 e2 a' b' ra rb :: real and z :: "real \<times> real"
    assume IH: "\<And>g e1 e2 a' b' ra rb z.
        widen g e1 e2 a' b' ra rb = Some z \<Longrightarrow> P g e1 e2 a' b' ra rb z"
      and step: "(if 0 < ra * rb
            then widen g e1 e2 (a' / e1) (b' * e2) (g (a' / e1)) (g (b' * e2))
            else Some (a', b')) = Some z"
    show "P g e1 e2 a' b' ra rb z"
      unfolding P_def
    proof (intro notI, elim conjE)
      assume ra: "ra = g a'" and rb: "rb = g b'"
        and pos: "\<forall>n. g (a' / e1 ^ n) * g (b' * e2 ^ n) > 0"
      from pos [rule_format, of 0] have "0 < ra * rb" by (simp add: ra rb)
      with step have rec:
        "widen g e1 e2 (a' / e1) (b' * e2) (g (a' / e1)) (g (b' * e2)) = Some z"
        by simp
      have "\<forall>n. g (a' / e1 / e1 ^ n) * g (b' * e2 * e2 ^ n) > 0"
      proof
        fix n
        from pos [rule_format, of "Suc n"]
        show "g (a' / e1 / e1 ^ n) * g (b' * e2 * e2 ^ n) > 0"
          by (simp add: mult.assoc)
      qed
      with IH [OF rec] show False by (simp add: P_def)
    qed
  qed
  with assms show False by (simp add: P_def)
qed

lemma widen_bracket_returns_at:
  assumes "f (a / d1 ^ n) * f (b * d2 ^ n) \<le> 0"
    and "\<forall>m<n. f (a / d1 ^ m) * f (b * d2 ^ m) > 0"
  shows "widen_bracket f d1 d2 a b (f a) (f b) = Some (a / d1 ^ n, b * d2 ^ n)"
  using assms
proof (induction n arbitrary: a b)
  case 0
  then show ?case by (simp add: widen_bracket.simps)
next
  case (Suc n)
  from Suc.prems(2) [rule_format, of 0] have pos: "0 < f a * f b" by simp
  have le: "f (a / d1 / d1 ^ n) * f (b * d2 * d2 ^ n) \<le> 0"
    using Suc.prems(1) by (simp add: mult.assoc)
  have before: "\<forall>m<n. f (a / d1 / d1 ^ m) * f (b * d2 * d2 ^ m) > 0"
  proof (intro allI impI)
    fix m assume "m < n"
    with Suc.prems(2) [rule_format, of "Suc m"]
    show "f (a / d1 / d1 ^ m) * f (b * d2 * d2 ^ m) > 0"
      by (simp add: mult.assoc)
  qed
  have "widen_bracket f d1 d2 a b (f a) (f b) =
        widen_bracket f d1 d2 (a / d1) (b * d2) (f (a / d1)) (f (b * d2))"
    using pos by (subst widen_bracket.simps) simp
  also have "\<dots> = Some (a / d1 / d1 ^ n, b * d2 * d2 ^ n)"
    using Suc.IH [OF le before] .
  finally show ?case by (simp add: mult.assoc)
qed

text \<open>
  C7, as it stands, fails: with an enthalpy that does not depend on the density, the
  residual is negative at every positive density, no expansion changes its sign, and the
  construction of the shock never returns.
\<close>

lemma flat_residual_negative:
  assumes "0 < x"
  shows "shock_root_rho ex_physics ex_flat_h ex_flat_state (12 / 7) x < 0"
proof -
  have "shock_root_rho ex_physics ex_flat_h ex_flat_state (12 / 7) x =
          - (((29 / 14) / x + 29 / 14) * (9 / 7))"
    by (simp add: shock_root_rho_def s_h_def s_p_def ex_physics_def ex_flat_state_def
          ex_flat_eos_def ex_flat_h_def eos_q_def Let_def add_divide_distrib)
  moreover have "0 < (29 / 14) / x + (29 / 14 :: real)"
    using assms by (intro add_pos_pos divide_pos_pos) simp_all
  ultimately show ?thesis by simp
qed

lemma flat_widen_never_returns:
  "widen_bracket (shock_root_rho ex_physics ex_flat_h ex_flat_state (12 / 7))
     (11 / 10) 10 1 2
     (shock_root_rho ex_physics ex_flat_h ex_flat_state (12 / 7) 1)
     (shock_root_rho ex_physics ex_flat_h ex_flat_state (12 / 7) 2) = None"
proof (rule widen_bracket_never_returns, rule allI)
  fix n :: nat
  have a: "(0 :: real) < 1 / (11 / 10) ^ n" and b: "(0 :: real) < 2 * 10 ^ n" by simp_all
  show "0 < shock_root_rho ex_physics ex_flat_h ex_flat_state (12 / 7)
                   (1 / (11 / 10) ^ n) *
                 shock_root_rho ex_physics ex_flat_h ex_flat_state (12 / 7)
                   (2 * 10 ^ n)"
    by (rule mult_neg_neg) (rule flat_residual_negative [OF a], rule flat_residual_negative [OF b])
qed

theorem widening_never_returns_counterexample:
  "Shock ex_physics ex_flat_state (12 / 7) 2 = Inl Hang"
proof -
  have p: "s_p ex_physics ex_flat_state = 3 / 7"
    by (simp add: s_p_def ex_physics_def ex_flat_state_def ex_flat_eos_def eos_q_def)
  have "sqrt ((12 / 7) / (3 / 7)) = sqrt 4" by simp
  then have ib: "initial_bracket ex_physics ex_flat_state (12 / 7) = (1, 2)"
    by (simp add: initial_bracket_def p) (simp add: ex_flat_state_def)
  have hf: "h_from_rho_p (s_eos ex_flat_state) = Some ex_flat_h"
    by (simp add: ex_flat_state_def ex_flat_eos_def)
  have "mass_flux_squared ex_physics ex_flat_state (12 / 7) (Some (s_eos ex_flat_state)) =
          Inl Hang"
    by (simp add: mass_flux_squared_def hf lookup_def ib p flat_widen_never_returns Let_def)
  then show ?thesis
    by (simp add: Shock_def solve_jump_def p allclose_def Let_def)
qed

section \<open>Chapman-Jouguet correction\<close>

lemma sqrt_values:
  "sqrt (16 / 9) = 4 / 3" "sqrt (25 / 16) = 5 / 4" "sqrt (9 / 25) = 3 / 5"
  by (rule real_sqrt_unique; simp add: power2_eq_square)+

lemma ex_reactive_derived:
  "s_p ex_physics ex_reactive_state = 3 / 7"
  "s_h ex_physics ex_reactive_state = 81 / 28"
  "s_W_lorentz ex_physics ex_reactive_state = 1"
  "s_rho ex_reactive_state = 1" "s_v ex_reactive_state = 0"
  by (simp_all add: s_p_def s_h_def s_W_lorentz_def ex_defs)

lemma ex_detonation_mass_flux:
  "mass_flux_squared ex_physics ex_reactive_state (12 / 7) (Some ex_inert_eos) =
     Inr (16 / 9, 3 / 2, 12 / 7, 9 / 7)"
proof -
  define g where "g = shock_root_rho ex_physics (ex_h 0)
                        ex_reactive_state (12 / 7)"
  have g: "g x = (1 + (5 / 2) * (12 / 7) / x) ^ 2 - (81 / 28) ^ 2 -
             ((1 + (5 / 2) * (12 / 7) / x) / x + 81 / 28) * (9 / 7)" for x
    by (simp add: g_def shock_root_rho_def ex_reactive_derived ex_h_def Let_def)
  have ib: "initial_bracket ex_physics ex_reactive_state (12 / 7) = (1, 2)"
    by (simp add: initial_bracket_def ex_reactive_derived sqrt_values)
  have "\<not> 0 < g 1 * g 2" by (simp add: g power2_eq_square)
  then have w: "widen_bracket g (11 / 10) 10 1 2 (g 1) (g 2) = Some (1, 2)"
    by (subst widen_bracket.simps) simp
  have hf: "h_from_rho_p ex_inert_eos = Some (ex_h 0)"
    by (simp add: ex_inert_eos_def)
  have b: "brentq ex_physics f 1 2 = Inr (3 / 2)" for f
    by (simp add: ex_physics_def)
  show ?thesis
    by (simp add: mass_flux_squared_def hf lookup_def ib ex_reactive_derived w [unfolded g_def]
          b Let_def power2_eq_square ex_h_def)
qed

lemma ex_detonation_jump:
  "solve_jump ex_physics ex_reactive_state (12 / 7) ex_inert_eos 2 lab =
     Inr (4 / 5, State ex_physics (3 / 2) (5 / 13) 0 (12 / 7) ex_inert_eos lab)"
proof -
  have fs: "front_speed ex_physics ex_reactive_state 1 (4 / 3) = 4 / 5"
    by (simp add: front_speed_def ex_reactive_derived power2_eq_square sqrt_values)
  have pv: "post_front_v ex_physics ex_reactive_state 1 (9 / 7) (4 / 3) (4 / 5) = 5 / 13"
    by (simp add: post_front_v_def ex_reactive_derived power2_eq_square sqrt_values Let_def)
  have vt: "vt_from_known ex_physics ex_reactive_state rho v eps = 0" for rho v eps
    by (simp add: vt_from_known_def ex_defs)
  show ?thesis
    by (simp add: solve_jump_def ex_detonation_mass_flux sqrt_values fs pv vt Let_def)
qed

text \<open>
  C3.  When the first solve of a detonation fails the stability check, the constructor
  asks the root finder for the Chapman-Jouguet pressure and then calls
  \<^verbatim>\<open>self.mass_flux_squared\<close>, which does not exist: whatever the root finder returns, no
  detonation is built and no end state is rebuilt.
\<close>

theorem detonation_cj_correction_fails:
  assumes "eos_inert (s_eos q) = Some eos_end" and "t_ignition (s_eos q) = Some t_i"
    and "t_from_rho_eps (s_eos q) = Some tf" and "tf (s_rho q) (s_eps q) \<ge> t_i"
    and "wavenumber = 0 \<or> wavenumber = 2"
    and "s_p ph q \<le> p_end" and "\<not> allclose (s_p ph q) p_end"
    and "solve_jump ph q p_end eos_end wavenumber (star_label wavenumber) =
           Inr (v_detonation, q_unknown)"
    and "real_of_int (wavenumber - 1) * (s_wavespeed ph q_unknown wavenumber - v_detonation) < 0"
  shows "Detonation ph q p_end wavenumber =
           bind_e (brentq ph (deflagration_root ph q eos_end wavenumber (NumLabel t_i))
                     ((1 + 1 / 10 ^ 9) * p_end) ((1 - 1 / 10 ^ 9) * s_p ph q))
             (\<lambda>p_cjdt. Inl (AttributeError ''mass_flux_squared'')) \<and>
         Detonation ph q p_end wavenumber \<noteq> Inr s"
proof -
  have eq: "Detonation ph q p_end wavenumber =
           bind_e (brentq ph (deflagration_root ph q eos_end wavenumber (NumLabel t_i))
                     ((1 + 1 / 10 ^ 9) * p_end) ((1 - 1 / 10 ^ 9) * s_p ph q))
             (\<lambda>p_cjdt. Inl (AttributeError ''mass_flux_squared''))"
    using assms by (auto simp: Detonation_def lookup_def Let_def bind_e_def split: sum.splits)
  have "Detonation ph q p_end wavenumber \<noteq> Inr s"
    unfolding eq by (simp add: bind_e_def split: sum.splits)
  with eq show ?thesis by simp
qed

theorem detonation_cj_correction_fails_witness:
  "eos_inert (s_eos ex_reactive_state) = Some ex_inert_eos \<and>
   t_ignition (s_eos ex_reactive_state) = Some (1 / 2) \<and>
   t_from_rho_eps (s_eos ex_reactive_state) = Some (ex_t (23 / 28)) \<and>
   ex_t (23 / 28) (s_rho ex_reactive_state) (s_eps ex_reactive_state) \<ge> 1 / 2 \<and>
   s_p ex_physics ex_reactive_state \<le> 12 / 7 \<and>
   \<not> allclose (s_p ex_physics ex_reactive_state) (12 / 7) \<and>
   solve_jump ex_physics ex_reactive_state (12 / 7) ex_inert_eos 2 (star_label 2) =
     Inr (4 / 5, State ex_physics (3 / 2) (5 / 13) 0 (12 / 7) ex_inert_eos (star_label 2)) \<and>
   real_of_int (2 - 1) *
     (s_wavespeed ex_physics
        (State ex_physics (3 / 2) (5 / 13) 0 (12 / 7) ex_inert_eos (star_label 2)) 2 - 4 / 5) < 0 \<and>
   Detonation ex_physics ex_reactive_state (12 / 7) 2 =
     Inl (AttributeError ''mass_flux_squared'')"
proof -
  have e: "eos_inert (s_eos ex_reactive_state) = Some ex_inert_eos"
     "t_ignition (s_eos ex_reactive_state) = Some (1 / 2)"
     "t_from_rho_eps (s_eos ex_reactive_state) = Some (ex_t (23 / 28))"
    by (simp_all add: ex_reactive_state_def ex_reactive_eos_def)
  have t: "ex_t (23 / 28) (s_rho ex_reactive_state) (s_eps ex_reactive_state) \<ge> 1 / 2"
    by (simp add: ex_t_def ex_reactive_state_def)
  have p: "s_p ex_physics ex_reactive_state \<le> 12 / 7"
     "\<not> allclose (s_p ex_physics ex_reactive_state) (12 / 7)"
    by (simp_all add: ex_reactive_derived allclose_def)
  have j: "solve_jump ex_physics ex_reactive_state (12 / 7) ex_inert_eos 2 (star_label 2) =
     Inr (4 / 5, State ex_physics (3 / 2) (5 / 13) 0 (12 / 7) ex_inert_eos (star_label 2))"
    by (rule ex_detonation_jump)
  have c: "real_of_int (2 - 1) *
     (s_wavespeed ex_physics
        (State ex_physics (3 / 2) (5 / 13) 0 (12 / 7) ex_inert_eos (star_label 2)) 2 - 4 / 5) < 0"
    by (simp add: s_wavespeed_def State_def ex_physics_def)
  have b: "brentq ex_physics f x y = Inr ((x + y) / 2)" for f x y
    by (simp add: ex_physics_def)
  have "Detonation ex_physics ex_reactive_state (12 / 7) 2 =
     Inl (AttributeError ''mass_flux_squared'')"
    using detonation_cj_correction_fails [OF e t _ p j c] by (simp add: b)
  with e t p j c show ?thesis by simp
qed

text \<open>
  The deflagration does rebuild its end state.  The search function builds the same
  state up to its label, so its residual at the pressure the root finder returned is the
  characteristic speed of the rebuilt end state minus the speed of the front: what the
  root finder guarantees for the one holds for the other.
\<close>

lemma solve_jump_label:
  assumes "solve_jump ph q p e wavenumber lab = Inr (v, s)"
  shows "solve_jump ph q p e wavenumber lab' = Inr (v, s\<lparr>s_label := lab'\<rparr>)"
  using assms
  by (auto simp: solve_jump_def bind_e_Inr_iff State_def Let_def)

lemma s_wavespeed_label [simp]:
  "s_wavespeed ph (s\<lparr>s_label := lab\<rparr>) wavenumber = s_wavespeed ph s wavenumber"
  by (simp add: s_wavespeed_def)

lemma deflagration_cj_consistent:
  assumes "eos_inert (s_eos q) = Some eos_end" and "t_ignition (s_eos q) = Some t_i"
    and "\<not> allclose (s_p ph q) p_end"
    and "solve_jump ph q p_end eos_end wavenumber (star_label wavenumber) =
           Inr (v_deflagration, q_unknown)"
    and "real_of_int (wavenumber - 1) *
           (s_wavespeed ph q_unknown wavenumber - v_deflagration) < 0"
    and "Deflagration ph q p_end wavenumber = Inr s"
  shows "\<exists>p_cjdf v_cj.
           brentq ph (deflagration_root ph q eos_end wavenumber (NumLabel t_i))
             ((1 + 1 / 10 ^ 9) * p_end) ((1 - 1 / 10 ^ 9) * s_p ph q) = Inr p_cjdf \<and>
           solve_jump ph q p_cjdf eos_end wavenumber (star_label wavenumber) =
             Inr (v_cj, sec_q_end s) \<and>
           sec_wavespeed s = [v_cj, v_cj] \<and>
           deflagration_root ph q eos_end wavenumber (NumLabel t_i) p_cjdf =
             Inr (s_wavespeed ph (sec_q_end s) wavenumber - v_cj)"
proof -
  from assms obtain p_cjdf v_cj q_cj where
    b: "brentq ph (deflagration_root ph q eos_end wavenumber (NumLabel t_i))
             ((1 + 1 / 10 ^ 9) * p_end) ((1 - 1 / 10 ^ 9) * s_p ph q) = Inr p_cjdf"
    and j: "solve_jump ph q p_cjdf eos_end wavenumber (star_label wavenumber) = Inr (v_cj, q_cj)"
    and s: "sec_q_end s = q_cj" "sec_wavespeed s = [v_cj, v_cj]"
    by (auto simp: Deflagration_def bind_e_Inr_iff Let_def)
  have "deflagration_root ph q eos_end wavenumber (NumLabel t_i) p_cjdf =
          Inr (s_wavespeed ph q_cj wavenumber - v_cj)"
    by (simp add: deflagration_root_def solve_jump_label [OF j])
  with b j s show ?thesis by simp
qed

section \<open>The precursor shock of a reactive wave\<close>

lemma Shock_Inr_fields:
  assumes "Shock ph q p_end wavenumber = Inr s"
  shows "sec_type s = ''Shock''" and "sec_q_start s = q" and "sec_wavenumber s = wavenumber"
    and "s_eos (sec_q_end s) = s_eos q" and "s_q (sec_q_end s) = q_init ph (s_eos q)"
    and "wavenumber = 0 \<or> wavenumber = 2"
  using assms
  by (auto simp: Shock_def solve_jump_def bind_e_Inr_iff State_def Let_def split: if_splits)

lemma Deflagration_Inr_fields:
  assumes "Deflagration ph q p_end wavenumber = Inr s"
  shows "sec_type s = ''Deflagration''" and "sec_q_start s = q"
  using assms by (auto simp: Deflagration_def bind_e_Inr_iff Let_def)

lemma Rarefaction_Inr_fields:
  assumes "Rarefaction ph q p_end wavenumber = Inr s"
  shows "sec_type s = ''Rarefaction''" and "sec_q_start s = q"
  using assms by (auto simp: Rarefaction_def bind_e_Inr_iff Let_def case_prod_beta)

lemma trailing_rarefaction_Inr:
  assumes "trailing_rarefaction ph ws q_next u wavenumber = Inr ws'"
  shows "ws' = ws \<or>
         (\<exists>r. Rarefaction ph q_next u wavenumber = Inr r \<and> s_p ph q_next > u \<and> ws' = ws @ [r])"
  using assms by (auto simp: trailing_rarefaction_def bind_e_Inr_iff split: if_splits)

lemma precursor_root_value:
  assumes "Shock ph q p_0_star wavenumber = Inr s" and "t_from_rho_eps (s_eos q) = Some tf"
  shows "precursor_root ph q t_i wavenumber p_0_star =
           Inr (tf (s_rho (sec_q_end s)) (s_eps (sec_q_end s)) - t_i)"
  using assms Shock_Inr_fields(4) [OF assms(1)]
  by (simp add: precursor_root_def Let_def lookup_def)

text \<open>
  The upper end of the bracket is always doubled: the shock to the pressure of the known
  state itself is trivial, so its temperature is the temperature of the known state,
  which is below ignition.
\<close>

lemma precursor_bracket_Inr:
  assumes "precursor_bracket ph q t_i wavenumber u = Inr (p_min, p_max)"
    and "t_from_rho_eps (s_eos q) = Some tf" and "tf (s_rho q) (s_eps q) < t_i"
  shows "p_min = u \<and> p_max = s_p ph q * 2"
proof -
  from assms(1) obtain t_max where
    t: "precursor_root ph q t_i wavenumber (s_p ph q) = Inr t_max"
    and r: "(if t_max \<le> 0
             then bind_e (precursor_root ph q t_i wavenumber (s_p ph q * 2))
                    (\<lambda>t_max'. Inr (u, s_p ph q * 2))
             else Inr (u, s_p ph q)) = Inr (p_min, p_max)"
    by (auto simp: precursor_bracket_def bind_e_Inr_iff Let_def)
  from t obtain s where s: "Shock ph q (s_p ph q) wavenumber = Inr s"
    by (auto simp: precursor_root_def bind_e_Inr_iff)
  then have "s_rho (sec_q_end s) = s_rho q" "s_eps (sec_q_end s) = s_eps q"
    by (auto simp: Shock_def bind_e_Inr_iff State_def Let_def)
  with precursor_root_value [OF s assms(2), of t_i] t assms(3) have "t_max \<le> 0" by simp
  with r show ?thesis by (auto simp: bind_e_Inr_iff)
qed

lemma precursor_path:
  assumes "Wave ph q_known (Num u) wavenumber = Inr w"
    and "q_available (s_eos q_known) \<noteq> None"
    and "wavenumber = 0 \<or> wavenumber = 2"
    and "\<not> s_p ph q_known < u"
    and "t_from_rho_eps (s_eos q_known) = Some tf"
    and "t_ignition (s_eos q_known) = Some t_i"
    and "tf (s_rho q_known) (s_eps q_known) < t_i"
  shows "\<exists>p_0_star precursor deflagration.
      precursor_bracket ph q_known t_i wavenumber u = Inr (u, s_p ph q_known * 2) \<and>
      brentq ph (precursor_root ph q_known t_i wavenumber) u (s_p ph q_known * 2) =
        Inr p_0_star \<and>
      Shock ph q_known p_0_star wavenumber = Inr precursor \<and>
      Deflagration ph ((sec_q_end precursor)\<lparr>s_q := s_q q_known\<rparr>) u wavenumber =
        Inr deflagration \<and>
      trailing_rarefaction ph
        [precursor\<lparr>sec_q_end := (sec_q_end precursor)\<lparr>s_q := s_q q_known\<rparr>\<rparr>, deflagration]
        (sec_q_end deflagration) u wavenumber = Inr (w_wave_sections w)"
proof -
  from assms(3) have wn: "wavenumber \<noteq> 1" by auto
  from assms(1) obtain ws where
    b: "bind_e (build_reactive_wave_section ph q_known (Num u) wavenumber) iterate_sections =
          Inr ws"
    and w: "w = aggregate wavenumber q_known ws"
    using assms(2) by (auto simp: Wave_def bind_e_Inr_iff)
  from b obtain x where x: "build_reactive_wave_section ph q_known (Num u) wavenumber = Inr x"
    and i: "iterate_sections x = Inr ws"
    by (auto simp: bind_e_Inr_iff)
  from i have "x = Listed ws"
    by (cases x) (simp_all add: iterate_sections_def)
  with x have l: "build_reactive_wave_section ph q_known (Num u) wavenumber = Inr (Listed ws)"
    by simp
  from l obtain p_min p_max p_0_star precursor deflagration where
    pb: "precursor_bracket ph q_known t_i wavenumber u = Inr (p_min, p_max)"
    and br: "brentq ph (precursor_root ph q_known t_i wavenumber) p_min p_max = Inr p_0_star"
    and sh: "Shock ph q_known p_0_star wavenumber = Inr precursor"
    and df: "Deflagration ph ((sec_q_end precursor)\<lparr>s_q := s_q q_known\<rparr>) u wavenumber =
        Inr deflagration"
    and tr: "trailing_rarefaction ph
        [precursor\<lparr>sec_q_end := (sec_q_end precursor)\<lparr>s_q := s_q q_known\<rparr>\<rparr>, deflagration]
        (sec_q_end deflagration) u wavenumber = Inr ws"
    using assms(4-7) wn
    by (auto simp: build_reactive_wave_section_def p_less_def bind_e_Inr_iff Let_def)
  from precursor_bracket_Inr [OF pb assms(5) assms(7)]
  have "p_min = u" "p_max = s_p ph q_known * 2" by simp_all
  with pb br sh df tr show ?thesis
    by (auto simp: w aggregate_edges)
qed

subsection \<open>A run through the precursor branch\<close>

lemma cold_derived:
  "s_p ex_cold_physics s = s_rho s * (eos_h (s_eos s) (s_rho s) - 1 - s_eps s)"
  "s_h ex_cold_physics s = eos_h (s_eos s) (s_rho s)"
  by (simp_all add: s_p_def s_h_def ex_cold_physics_def)

lemma cold_brentq: "brentq ex_cold_physics f a b = Inr ((a + b) / 2)"
  by (simp add: ex_cold_physics_def ex_physics_def)

lemma cold_q_init: "q_init ex_cold_physics e = q_available e"
  by (simp add: ex_cold_physics_def ex_physics_def)

lemma eos_h_values [simp]:
  "eos_h ex_fuel_eos rho = 4 * rho" "eos_h ex_burnt_eos rho = (15 / 4) * rho"
  by (simp_all add: eos_h_def ex_fuel_eos_def ex_burnt_eos_def ex_fuel_h_def ex_burnt_h_def)

lemma cold_solve_jump:
  assumes "h_from_rho_p e = Some hf"
    and "initial_bracket ex_cold_physics q p_end = (mn, mx)"
    and "shock_root_rho ex_cold_physics hf q p_end mn *
         shock_root_rho ex_cold_physics hf q p_end mx \<le> 0"
  shows "\<exists>vf st. solve_jump ex_cold_physics q p_end e wavenumber lab = Inr (vf, st) \<and>
           s_rho st = (mn + mx) / 2 \<and>
           s_eps st = hf ((mn + mx) / 2) p_end - 1 - p_end / ((mn + mx) / 2) \<and>
           s_eos st = e \<and> s_q st = q_available e \<and> s_label st = lab"
proof -
  let ?f = "shock_root_rho ex_cold_physics hf q p_end"
  from assms(3) have "\<not> 0 < ?f mn * ?f mx" by simp
  then have w: "widen_bracket ?f d1 d2 mn mx (?f mn) (?f mx) = Some (mn, mx)" for d1 d2
    by (subst widen_bracket.simps) simp
  have "\<exists>j2 dp. mass_flux_squared ex_cold_physics q p_end (Some e) =
          Inr (j2, (mn + mx) / 2, hf ((mn + mx) / 2) p_end - 1 - p_end / ((mn + mx) / 2), dp)"
    by (simp add: mass_flux_squared_def assms(1,2) lookup_def w cold_brentq Let_def)
  then show ?thesis
    by (auto simp: solve_jump_def State_def cold_q_init Let_def)
qed

lemma cold_known:
  "s_rho ex_cold_state = 1" "s_eps ex_cold_state = 2" "s_eos ex_cold_state = ex_fuel_eos"
  "s_p ex_cold_physics ex_cold_state = 1" "s_h ex_cold_physics ex_cold_state = 4"
  "s_q ex_cold_state = Some (1 / 2)"
  by (simp_all add: cold_derived) (simp_all add: ex_cold_state_def)

lemma fuel_entries:
  "h_from_rho_p ex_fuel_eos = Some ex_fuel_h" "t_from_rho_eps ex_fuel_eos = Some (ex_t 0)"
  "t_ignition ex_fuel_eos = Some (52 / 25)" "eos_inert ex_fuel_eos = Some ex_burnt_eos"
  "q_available ex_fuel_eos = Some 1" "h_from_rho_p ex_burnt_eos = Some ex_burnt_h"
  by (simp_all add: ex_fuel_eos_def ex_burnt_eos_def)

lemma cold_residual:
  "x \<noteq> 0 \<Longrightarrow>
   shock_root_rho ex_cold_physics ex_fuel_h ex_cold_state p_end x =
     16 * x ^ 2 - 16 - 8 * (p_end - 1)"
  by (simp add: shock_root_rho_def cold_known ex_fuel_h_def Let_def power2_eq_square)

lemma cold_shock:
  assumes "\<not> allclose 1 p_end"
    and "initial_bracket ex_cold_physics ex_cold_state p_end = (mn, mx)"
    and "mn \<noteq> 0" and "mx \<noteq> 0"
    and "(16 * mn ^ 2 - 16 - 8 * (p_end - 1)) * (16 * mx ^ 2 - 16 - 8 * (p_end - 1)) \<le> 0"
  shows "\<exists>s. Shock ex_cold_physics ex_cold_state p_end 2 = Inr s \<and>
           s_rho (sec_q_end s) = (mn + mx) / 2 \<and>
           s_eps (sec_q_end s) = 4 * ((mn + mx) / 2) - 1 - p_end / ((mn + mx) / 2)"
proof -
  from cold_solve_jump [OF fuel_entries(1) assms(2), of 2 "star_label 2"] assms(3-5)
  obtain vf st where
    "solve_jump ex_cold_physics ex_cold_state p_end ex_fuel_eos 2 (star_label 2) = Inr (vf, st)"
    "s_rho st = (mn + mx) / 2"
    "s_eps st = ex_fuel_h ((mn + mx) / 2) p_end - 1 - p_end / ((mn + mx) / 2)"
    by (auto simp: cold_residual)
  then show ?thesis
    using assms(1) by (simp add: Shock_def cold_known ex_fuel_h_def)
qed

lemma cold_shock_low:
  "\<exists>s. Shock ex_cold_physics ex_cold_state (400 / 529) 2 = Inr s \<and>
       s_rho (sec_q_end s) = 43 / 46 \<and> s_eps (sec_q_end s) = 83 / 43"
proof -
  have "sqrt (400 / 529) = 20 / 23"
    by (rule real_sqrt_unique) (simp_all add: power2_eq_square)
  then have ib: "initial_bracket ex_cold_physics ex_cold_state (400 / 529) = (20 / 23, 1)"
    by (simp add: initial_bracket_def cold_known)
  from cold_shock [OF _ ib] show ?thesis
    by (simp add: allclose_def power2_eq_square)
qed

lemma cold_shock_high:
  "\<exists>s. Shock ex_cold_physics ex_cold_state 2 2 = Inr s"
proof -
  have ib: "initial_bracket ex_cold_physics ex_cold_state 2 = (1, sqrt 2)"
    by (simp add: initial_bracket_def cold_known)
  from cold_shock [OF _ ib] show ?thesis
    by (auto simp: allclose_def)
qed

lemma cold_shock_ignition:
  "\<exists>s. Shock ex_cold_physics ex_cold_state (729 / 529) 2 = Inr s \<and>
       s_rho (sec_q_end s) = 25 / 23 \<and> s_eps (sec_q_end s) = 52 / 25"
proof -
  have "sqrt (729 / 529) = 27 / 23"
    by (rule real_sqrt_unique) (simp_all add: power2_eq_square)
  then have ib: "initial_bracket ex_cold_physics ex_cold_state (729 / 529) = (1, 27 / 23)"
    by (simp add: initial_bracket_def cold_known)
  from cold_shock [OF _ ib] show ?thesis
    by (simp add: allclose_def power2_eq_square)
qed

lemma cold_precursor_bracket:
  "precursor_bracket ex_cold_physics ex_cold_state (52 / 25) 2 (400 / 529) = Inr (400 / 529, 2)"
proof -
  obtain s where s: "Shock ex_cold_physics ex_cold_state (400 / 529) 2 = Inr s"
      "s_rho (sec_q_end s) = 43 / 46" "s_eps (sec_q_end s) = 83 / 43"
    using cold_shock_low by blast
  have low: "precursor_root ex_cold_physics ex_cold_state (52 / 25) 2 (400 / 529) =
      Inr (83 / 43 - 52 / 25)"
    using precursor_root_value [OF s(1), of "ex_t 0" "52 / 25"]
    by (simp add: cold_known fuel_entries s ex_t_def)
  obtain s1 where s1: "Shock ex_cold_physics ex_cold_state 1 2 = Inr s1"
      "s_rho (sec_q_end s1) = 1" "s_eps (sec_q_end s1) = 2"
    by (simp add: Shock_def cold_known State_def)
  have mid: "precursor_root ex_cold_physics ex_cold_state (52 / 25) 2 1 = Inr (2 - 52 / 25)"
    using precursor_root_value [OF s1(1), of "ex_t 0" "52 / 25"]
    by (simp add: cold_known fuel_entries s1 ex_t_def)
  obtain s2 where s2: "Shock ex_cold_physics ex_cold_state 2 2 = Inr s2"
    using cold_shock_high by blast
  have high: "\<exists>t. precursor_root ex_cold_physics ex_cold_state (52 / 25) 2 2 = Inr t"
    using precursor_root_value [OF s2, of "ex_t 0" "52 / 25"]
    by (simp add: cold_known fuel_entries)
  then obtain t where t: "precursor_root ex_cold_physics ex_cold_state (52 / 25) 2 2 = Inr t" ..
  show ?thesis
    by (simp add: precursor_bracket_def cold_known low mid t Let_def)
qed

lemma Rarefaction_succeeds:
  assumes "wavenumber = 0 \<or> wavenumber = 2" and "p_end \<le> s_p ph q"
  shows "\<exists>r. Rarefaction ph q p_end wavenumber = Inr r"
  using assms by (auto simp: Rarefaction_def Let_def case_prod_beta)

lemma trailing_rarefaction_succeeds:
  assumes "wavenumber = 0 \<or> wavenumber = 2"
  shows "\<exists>ws'. trailing_rarefaction ph ws q u wavenumber = Inr ws'"
proof (cases "s_p ph q > u")
  case True
  then obtain r where "Rarefaction ph q u wavenumber = Inr r"
    using Rarefaction_succeeds [OF assms, of u ph q] by auto
  with True show ?thesis by (simp add: trailing_rarefaction_def)
next
  case False
  then show ?thesis by (simp add: trailing_rarefaction_def)
qed

lemma hot_residual:
  assumes "s_rho q = 25 / 23" and "s_eps q = 52 / 25" and "s_eos q = ex_fuel_eos"
    and "x \<noteq> 0"
  shows "shock_root_rho ex_cold_physics ex_burnt_h q p_end x =
           (225 / 16) * x ^ 2 - 10000 / 529 - (31 / 4) * (p_end - 729 / 529)"
  by (simp add: shock_root_rho_def cold_derived assms ex_burnt_h_def Let_def power2_eq_square)

lemma hot_jump:
  assumes "s_rho q = 25 / 23" and "s_eps q = 52 / 25" and "s_eos q = ex_fuel_eos"
    and "0 < r" and "r < 1" and "p_end = r * (729 / 529)"
    and "(225 / 16) * (r * (625 / 529)) - 10000 / 529 - (31 / 4) * (p_end - 729 / 529) \<le> 0"
    and "(225 / 16) * (625 / 529) - 10000 / 529 - (31 / 4) * (p_end - 729 / 529) \<ge> 0"
  shows "\<exists>vf st. solve_jump ex_cold_physics q p_end ex_burnt_eos 2 lab = Inr (vf, st)"
proof -
  have p: "s_p ex_cold_physics q = 729 / 529"
    by (simp add: cold_derived assms(1-3))
  have ib: "initial_bracket ex_cold_physics q p_end = (sqrt r * (25 / 23), 25 / 23)"
    using assms(4-6) by (simp add: initial_bracket_def p assms(1))
  have mn: "sqrt r * (25 / 23) \<noteq> 0" using assms(4) by simp
  have sq: "(sqrt r * (25 / 23)) ^ 2 = r * (625 / 529)"
    using assms(4) by (simp add: power_mult_distrib power2_eq_square)
  have "shock_root_rho ex_cold_physics ex_burnt_h q p_end (sqrt r * (25 / 23)) \<le> 0"
    unfolding hot_residual [OF assms(1-3) mn] sq using assms(7) .
  moreover have "shock_root_rho ex_cold_physics ex_burnt_h q p_end (25 / 23) \<ge> 0"
    using assms(8) by (simp add: hot_residual [OF assms(1-3)] power2_eq_square)
  ultimately have "shock_root_rho ex_cold_physics ex_burnt_h q p_end (sqrt r * (25 / 23)) *
         shock_root_rho ex_cold_physics ex_burnt_h q p_end (25 / 23) \<le> 0"
    by (rule mult_nonpos_nonneg)
  from cold_solve_jump [OF fuel_entries(6) ib this, of 2 lab] show ?thesis by blast
qed

lemma hot_deflagration:
  assumes "s_rho q = 25 / 23" and "s_eps q = 52 / 25" and "s_eos q = ex_fuel_eos"
  shows "\<exists>d. Deflagration ex_cold_physics q (400 / 529) 2 = Inr d"
proof -
  have p: "s_p ex_cold_physics q = 729 / 529"
    by (simp add: cold_derived assms)
  obtain vf st where j:
    "solve_jump ex_cold_physics q (400 / 529) ex_burnt_eos 2 (star_label 2) = Inr (vf, st)"
    using hot_jump [OF assms, of "400 / 729" "400 / 529" "star_label 2"] by auto
  define p_cj :: real where
    "p_cj = ((1 + 1 / 10 ^ 9) * (400 / 529) + (1 - 1 / 10 ^ 9) * (729 / 529)) / 2"
  obtain vc sc where c:
    "solve_jump ex_cold_physics q p_cj ex_burnt_eos 2 (star_label 2) = Inr (vc, sc)"
    using hot_jump [OF assms, of "p_cj / (729 / 529)" p_cj "star_label 2"]
    by (auto simp: p_cj_def)
  have pre: "lookup (eos_inert (s_eos q)) ''eos_inert'' = Inr ex_burnt_eos"
    "lookup (t_ignition (s_eos q)) ''t_ignition'' = Inr (52 / 25)"
    "lookup (t_from_rho_eps (s_eos q)) ''t_from_rho_eps'' = Inr (ex_t 0)"
    by (simp_all add: assms(3) fuel_entries)
  have chk: "\<not> allclose (729 / 529) (400 / 529 :: real)" "ex_t 0 (25 / 23) (52 / 25) \<ge> (52 / 25 :: real)"
    by (simp_all add: allclose_def ex_t_def)
  show ?thesis
  proof (cases "real_of_int (2 - 1) * (s_wavespeed ex_cold_physics st 2 - vf) < 0")
    case True
    then show ?thesis
      using chk c [unfolded p_cj_def]
      by (simp add: Deflagration_def pre p assms(1,2) j cold_brentq Let_def)
  next
    case False
    then show ?thesis
      using chk
      by (simp add: Deflagration_def pre p assms(1,2) j Let_def)
  qed
qed

lemma ex_cold_wave:
  "\<exists>w. Wave ex_cold_physics ex_cold_state (Num (400 / 529)) 2 = Inr w"
proof -
  obtain s where s: "Shock ex_cold_physics ex_cold_state (729 / 529) 2 = Inr s"
      "s_rho (sec_q_end s) = 25 / 23" "s_eps (sec_q_end s) = 52 / 25"
    using cold_shock_ignition by blast
  have e: "s_eos (sec_q_end s) = ex_fuel_eos"
    using Shock_Inr_fields(4) [OF s(1)] by (simp add: cold_known)
  obtain d where d:
    "Deflagration ex_cold_physics ((sec_q_end s)\<lparr>s_q := Some (1 / 2)\<rparr>) (400 / 529) 2 = Inr d"
    using hot_deflagration [of "(sec_q_end s)\<lparr>s_q := Some (1 / 2)\<rparr>"] s e by auto
  obtain ws where ws:
    "trailing_rarefaction ex_cold_physics
       [s\<lparr>sec_q_end := (sec_q_end s)\<lparr>s_q := Some (1 / 2)\<rparr>\<rparr>, d] (sec_q_end d) (400 / 529) 2 =
     Inr ws"
    using trailing_rarefaction_succeeds [of 2] by blast
  have "build_reactive_wave_section ex_cold_physics ex_cold_state (Num (400 / 529)) 2 =
          Inr (Listed ws)"
    by (simp add: build_reactive_wave_section_def cold_known fuel_entries p_less_def ex_t_def
          lookup_def cold_precursor_bracket cold_brentq s d ws Let_def)
  then show ?thesis
    by (simp add: Wave_def cold_known fuel_entries iterate_sections_def)
qed

text \<open>
  C2.  A reactive wave of the wavenumber 0 or 2 whose target is not above the pressure of
  the known state, built from a known state below ignition: the root finder is asked for
  the pressure at which the temperature behind a shock reaches ignition, between the
  target and twice the known pressure; the shock to that pressure is the first section;
  the residual of the search at that pressure is its post-shock temperature minus the
  ignition temperature; its end state, with the progress variable of the known state, is
  the start state of the deflagration that follows; and the sections are these two, or
  these two and a rarefaction from the end state of the deflagration.
\<close>

theorem precursor_wave_sections:
  assumes "Wave ph q_known (Num u) wavenumber = Inr w"
    and "q_available (s_eos q_known) \<noteq> None"
    and "wavenumber = 0 \<or> wavenumber = 2"
    and "\<not> s_p ph q_known < u"
    and "t_from_rho_eps (s_eos q_known) = Some tf"
    and "t_ignition (s_eos q_known) = Some t_i"
    and "tf (s_rho q_known) (s_eps q_known) < t_i"
  shows "\<exists>p_0_star precursor deflagration.
      brentq ph (precursor_root ph q_known t_i wavenumber) u (s_p ph q_known * 2) =
        Inr p_0_star \<and>
      Shock ph q_known p_0_star wavenumber = Inr precursor \<and>
      sec_type precursor = ''Shock'' \<and>
      precursor_root ph q_known t_i wavenumber p_0_star =
        Inr (tf (s_rho (sec_q_end precursor)) (s_eps (sec_q_end precursor)) - t_i) \<and>
      Deflagration ph ((sec_q_end precursor)\<lparr>s_q := s_q q_known\<rparr>) u wavenumber =
        Inr deflagration \<and>
      sec_type deflagration = ''Deflagration'' \<and>
      sec_q_start deflagration = (sec_q_end precursor)\<lparr>s_q := s_q q_known\<rparr> \<and>
      (w_wave_sections w =
         [precursor\<lparr>sec_q_end := (sec_q_end precursor)\<lparr>s_q := s_q q_known\<rparr>\<rparr>, deflagration] \<or>
       (\<exists>rarefaction.
          Rarefaction ph (sec_q_end deflagration) u wavenumber = Inr rarefaction \<and>
          sec_type rarefaction = ''Rarefaction'' \<and>
          w_wave_sections w =
            [precursor\<lparr>sec_q_end := (sec_q_end precursor)\<lparr>s_q := s_q q_known\<rparr>\<rparr>, deflagration,
             rarefaction]))"
proof -
  from precursor_path [OF assms] obtain p_0_star precursor deflagration where
    br: "brentq ph (precursor_root ph q_known t_i wavenumber) u (s_p ph q_known * 2) =
        Inr p_0_star"
    and sh: "Shock ph q_known p_0_star wavenumber = Inr precursor"
    and df: "Deflagration ph ((sec_q_end precursor)\<lparr>s_q := s_q q_known\<rparr>) u wavenumber =
        Inr deflagration"
    and tr: "trailing_rarefaction ph
        [precursor\<lparr>sec_q_end := (sec_q_end precursor)\<lparr>s_q := s_q q_known\<rparr>\<rparr>, deflagration]
        (sec_q_end deflagration) u wavenumber = Inr (w_wave_sections w)"
    by blast
  note pr = precursor_root_value [OF sh assms(5), of t_i]
  note st = Shock_Inr_fields(1) [OF sh]
  note dt = Deflagration_Inr_fields [OF df]
  from trailing_rarefaction_Inr [OF tr]
  have "w_wave_sections w =
         [precursor\<lparr>sec_q_end := (sec_q_end precursor)\<lparr>s_q := s_q q_known\<rparr>\<rparr>, deflagration] \<or>
       (\<exists>rarefaction.
          Rarefaction ph (sec_q_end deflagration) u wavenumber = Inr rarefaction \<and>
          sec_type rarefaction = ''Rarefaction'' \<and>
          w_wave_sections w =
            [precursor\<lparr>sec_q_end := (sec_q_end precursor)\<lparr>s_q := s_q q_known\<rparr>\<rparr>, deflagration,
             rarefaction])"
    using Rarefaction_Inr_fields(1) by auto
  with br sh df pr st dt show ?thesis by blast
qed

theorem precursor_wave_sections_witness:
  "\<exists>w. Wave ex_cold_physics ex_cold_state (Num (400 / 529)) 2 = Inr w \<and>
       q_available (s_eos ex_cold_state) \<noteq> None \<and>
       \<not> s_p ex_cold_physics ex_cold_state < 400 / 529 \<and>
       t_from_rho_eps (s_eos ex_cold_state) = Some (ex_t 0) \<and>
       t_ignition (s_eos ex_cold_state) = Some (52 / 25) \<and>
       ex_t 0 (s_rho ex_cold_state) (s_eps ex_cold_state) < 52 / 25 \<and>
       (map sec_type (w_wave_sections w) = [''Shock'', ''Deflagration''] \<or>
        map sec_type (w_wave_sections w) = [''Shock'', ''Deflagration'', ''Rarefaction''])"
proof -
  obtain w where w: "Wave ex_cold_physics ex_cold_state (Num (400 / 529)) 2 = Inr w"
    using ex_cold_wave by blast
  have h: "q_available (s_eos ex_cold_state) \<noteq> None"
    "\<not> s_p ex_cold_physics ex_cold_state < 400 / 529"
    "t_from_rho_eps (s_eos ex_cold_state) = Some (ex_t 0)"
    "t_ignition (s_eos ex_cold_state) = Some (52 / 25)"
    "ex_t 0 (s_rho ex_cold_state) (s_eps ex_cold_state) < 52 / 25"
    by (simp_all add: cold_known fuel_entries ex_t_def)
  from precursor_wave_sections [OF w h(1) _ h(2-5)]
  have "map sec_type (w_wave_sections w) = [''Shock'', ''Deflagration''] \<or>
        map sec_type (w_wave_sections w) = [''Shock'', ''Deflagration'', ''Rarefaction'']"
    by auto
  with w h show ?thesis
    by - (rule exI [of _ w], (intro conjI; assumption))
qed

section \<open>The recorded end state of the precursor shock\<close>

text \<open>
  C9.  In such a wave the end state recorded in the first section is not the end state
  its constructor built: the progress variable has been overwritten with that of the
  known state after the section was put into the list.
\<close>

theorem precursor_end_state_overwritten:
  assumes "Wave ph q_known (Num u) wavenumber = Inr w"
    and "q_available (s_eos q_known) \<noteq> None"
    and "wavenumber = 0 \<or> wavenumber = 2"
    and "\<not> s_p ph q_known < u"
    and "t_from_rho_eps (s_eos q_known) = Some tf"
    and "t_ignition (s_eos q_known) = Some t_i"
    and "tf (s_rho q_known) (s_eps q_known) < t_i"
    and "q_init ph (s_eos q_known) \<noteq> s_q q_known"
  shows "\<exists>p_0_star precursor.
      brentq ph (precursor_root ph q_known t_i wavenumber) u (s_p ph q_known * 2) =
        Inr p_0_star \<and>
      Shock ph q_known p_0_star wavenumber = Inr precursor \<and>
      w_wave_sections w \<noteq> [] \<and>
      sec_q_end (hd (w_wave_sections w)) = (sec_q_end precursor)\<lparr>s_q := s_q q_known\<rparr> \<and>
      s_q (sec_q_end precursor) = q_init ph (s_eos q_known) \<and>
      sec_q_end (hd (w_wave_sections w)) \<noteq> sec_q_end precursor"
proof -
  from precursor_path [OF assms(1-7)] obtain p_0_star precursor deflagration where
    br: "brentq ph (precursor_root ph q_known t_i wavenumber) u (s_p ph q_known * 2) =
        Inr p_0_star"
    and sh: "Shock ph q_known p_0_star wavenumber = Inr precursor"
    and tr: "trailing_rarefaction ph
        [precursor\<lparr>sec_q_end := (sec_q_end precursor)\<lparr>s_q := s_q q_known\<rparr>\<rparr>, deflagration]
        (sec_q_end deflagration) u wavenumber = Inr (w_wave_sections w)"
    by blast
  from trailing_rarefaction_Inr [OF tr]
  have hd: "w_wave_sections w \<noteq> []"
    "sec_q_end (hd (w_wave_sections w)) = (sec_q_end precursor)\<lparr>s_q := s_q q_known\<rparr>"
    by auto
  note q = Shock_Inr_fields(5) [OF sh]
  have "s_q (sec_q_end (hd (w_wave_sections w))) \<noteq> s_q (sec_q_end precursor)"
    using assms(8) by (simp add: hd q)
  then have "sec_q_end (hd (w_wave_sections w)) \<noteq> sec_q_end precursor" by auto
  with br sh hd q show ?thesis by blast
qed

theorem precursor_end_state_overwritten_witness:
  "\<exists>w precursor.
     Wave ex_cold_physics ex_cold_state (Num (400 / 529)) 2 = Inr w \<and>
     q_init ex_cold_physics (s_eos ex_cold_state) = Some 1 \<and>
     s_q ex_cold_state = Some (1 / 2) \<and>
     Shock ex_cold_physics ex_cold_state (729 / 529) 2 = Inr precursor \<and>
     s_q (sec_q_end precursor) = Some 1 \<and>
     s_q (sec_q_end (hd (w_wave_sections w))) = Some (1 / 2)"
proof -
  obtain w where w: "Wave ex_cold_physics ex_cold_state (Num (400 / 529)) 2 = Inr w"
    using ex_cold_wave by blast
  have h: "q_available (s_eos ex_cold_state) \<noteq> None"
    "\<not> s_p ex_cold_physics ex_cold_state < 400 / 529"
    "t_from_rho_eps (s_eos ex_cold_state) = Some (ex_t 0)"
    "t_ignition (s_eos ex_cold_state) = Some (52 / 25)"
    "ex_t 0 (s_rho ex_cold_state) (s_eps ex_cold_state) < 52 / 25"
    "q_init ex_cold_physics (s_eos ex_cold_state) \<noteq> s_q ex_cold_state"
    by (simp_all add: cold_known fuel_entries ex_t_def cold_q_init)
  have q: "q_init ex_cold_physics (s_eos ex_cold_state) = Some 1"
    "s_q ex_cold_state = Some (1 / 2)"
    by (simp_all add: cold_known fuel_entries cold_q_init)
  from precursor_end_state_overwritten [OF w h(1) _ h(2-6)]
  obtain p_0_star precursor where
    "brentq ex_cold_physics (precursor_root ex_cold_physics ex_cold_state (52 / 25) 2)
       (400 / 529) (s_p ex_cold_physics ex_cold_state * 2) = Inr p_0_star"
    and sh: "Shock ex_cold_physics ex_cold_state p_0_star 2 = Inr precursor"
    and r: "sec_q_end (hd (w_wave_sections w)) = (sec_q_end precursor)\<lparr>s_q := s_q ex_cold_state\<rparr>"
      "s_q (sec_q_end precursor) = q_init ex_cold_physics (s_eos ex_cold_state)"
    by auto
  then have "p_0_star = 729 / 529"
    by (simp add: cold_brentq cold_known)
  with sh r q w show ?thesis by auto
qed

section \<open>What the bracket searches do\<close>

lemma precursor_bracket_widened_once:
  assumes "precursor_bracket ph q_known t_i wavenumber u = Inr (p_min, p_max)"
  shows "p_min = u \<and> (p_max = s_p ph q_known \<or> p_max = s_p ph q_known * 2)"
  using assms
  by (auto simp: precursor_bracket_def bind_e_Inr_iff Let_def split: if_splits)

text \<open>
  C7, amended.  The widening loop of the mass-flux computation has no bound and no
  failure of its own.  It returns exactly when some expansion reaches a bracket at whose
  ends the residuals have a product that is not positive; it then returns that bracket,
  after the least such number of expansions.  When no expansion does, it never returns.
  The bracket of the precursor search is widened at most once: when it is returned it
  runs from the target to the known pressure or to twice the known pressure.
\<close>

theorem widen_bracket_returns:
  "(widen_bracket f d1 d2 a b (f a) (f b) = None \<longleftrightarrow>
      (\<forall>n. f (a / d1 ^ n) * f (b * d2 ^ n) > 0)) \<and>
   (f (a / d1 ^ n) * f (b * d2 ^ n) \<le> 0 \<and>
    (\<forall>m<n. f (a / d1 ^ m) * f (b * d2 ^ m) > 0) \<longrightarrow>
      widen_bracket f d1 d2 a b (f a) (f b) = Some (a / d1 ^ n, b * d2 ^ n)) \<and>
   (precursor_bracket ph q_known t_i wavenumber u = Inr (p_min, p_max) \<longrightarrow>
      p_min = u \<and> (p_max = s_p ph q_known \<or> p_max = s_p ph q_known * 2))"
proof (intro conjI iffI impI)
  assume none: "widen_bracket f d1 d2 a b (f a) (f b) = None"
  show "\<forall>n. f (a / d1 ^ n) * f (b * d2 ^ n) > 0"
  proof (rule ccontr)
    assume "\<not> (\<forall>n. f (a / d1 ^ n) * f (b * d2 ^ n) > 0)"
    then have ex: "\<exists>k. f (a / d1 ^ k) * f (b * d2 ^ k) \<le> 0" by (simp add: not_less)
    define k where "k = (LEAST k. f (a / d1 ^ k) * f (b * d2 ^ k) \<le> 0)"
    have "f (a / d1 ^ k) * f (b * d2 ^ k) \<le> 0"
      unfolding k_def using ex by (rule LeastI_ex)
    moreover have "\<forall>m<k. f (a / d1 ^ m) * f (b * d2 ^ m) > 0"
      unfolding k_def using not_less_Least by (fastforce simp: not_le)
    ultimately have "widen_bracket f d1 d2 a b (f a) (f b) = Some (a / d1 ^ k, b * d2 ^ k)"
      by (rule widen_bracket_returns_at)
    with none show False by simp
  qed
next
  assume "\<forall>n. f (a / d1 ^ n) * f (b * d2 ^ n) > 0"
  then show "widen_bracket f d1 d2 a b (f a) (f b) = None"
    by (rule widen_bracket_never_returns)
next
  assume "f (a / d1 ^ n) * f (b * d2 ^ n) \<le> 0 \<and>
    (\<forall>m<n. f (a / d1 ^ m) * f (b * d2 ^ m) > 0)"
  then show "widen_bracket f d1 d2 a b (f a) (f b) = Some (a / d1 ^ n, b * d2 ^ n)"
    using widen_bracket_returns_at by blast
next
  assume "precursor_bracket ph q_known t_i wavenumber u = Inr (p_min, p_max)"
  then show "p_min = u" "p_max = s_p ph q_known \<or> p_max = s_p ph q_known * 2"
    using precursor_bracket_widened_once by blast+
qed

theorem widen_bracket_returns_witness:
  "shock_root_rho ex_physics (ex_h 0) ex_state (12 / 7) 1 *
   shock_root_rho ex_physics (ex_h 0) ex_state (12 / 7) 2 > 0 \<and>
   shock_root_rho ex_physics (ex_h 0) ex_state (12 / 7) (10 / 11) *
   shock_root_rho ex_physics (ex_h 0) ex_state (12 / 7) 20 \<le> 0 \<and>
   widen_bracket (shock_root_rho ex_physics (ex_h 0) ex_state (12 / 7))
     (11 / 10) 10 1 2
     (shock_root_rho ex_physics (ex_h 0) ex_state (12 / 7) 1)
     (shock_root_rho ex_physics (ex_h 0) ex_state (12 / 7) 2) =
   Some (10 / 11, 20) \<and>
   precursor_bracket ex_cold_physics ex_cold_state (52 / 25) 2 (400 / 529) =
     Inr (400 / 529, 2) \<and>
   s_p ex_cold_physics ex_cold_state = 1 \<and>
   (2 = s_p ex_cold_physics ex_cold_state \<or> 2 = s_p ex_cold_physics ex_cold_state * 2)"
proof -
  define g where "g = shock_root_rho ex_physics (ex_h 0) ex_state (12 / 7)"
  have g: "g x = (1 + (5 / 2) * (12 / 7) / x) ^ 2 - (29 / 14) ^ 2 -
             ((1 + (5 / 2) * (12 / 7) / x) / x + 29 / 14) * (9 / 7)" for x
    by (simp add: g_def shock_root_rho_def s_h_def s_p_def ex_defs ex_h_def Let_def)
  have g0: "g 1 * g 2 > 0"
    by (simp add: g power2_eq_square)
  have g1: "g (1 / (11 / 10) ^ 1) * g (2 * 10 ^ 1) \<le> 0"
    by (simp add: g power2_eq_square)
  have before: "\<forall>m<1. g (1 / (11 / 10) ^ m) * g (2 * 10 ^ m) > 0"
    using g0 by simp
  note t = widen_bracket_returns [where f = g and ?d1.0 = "11 / 10" and ?d2.0 = 10
      and a = 1 and b = 2 and n = 1 and ph = ex_cold_physics and q_known = ex_cold_state
      and t_i = "52 / 25" and wavenumber = 2 and u = "400 / 529"
      and p_min = "400 / 529" and p_max = 2]
  have w: "widen_bracket g (11 / 10) 10 1 2 (g 1) (g 2) = Some (1 / (11 / 10) ^ 1, 2 * 10 ^ 1)"
    using t g1 before by blast
  have p: "2 = s_p ex_cold_physics ex_cold_state \<or> 2 = s_p ex_cold_physics ex_cold_state * 2"
    using t cold_precursor_bracket by blast
  from w g0 g1 have
    "g 1 * g 2 > 0 \<and> g (10 / 11) * g 20 \<le> 0 \<and>
     widen_bracket g (11 / 10) 10 1 2 (g 1) (g 2) = Some (10 / 11, 20)"
    by simp
  with p cold_precursor_bracket cold_known(4) show ?thesis
    unfolding g_def by blast
qed

end
